theory Spec2Isabelle
  imports Main
begin

section \<open>Values of the configuration tree\<close>

text \<open>
  The controller (\<^verbatim>\<open>ui/src/ui/controllers/config.ts\<close>) works on untyped ECMAScript
  values: the configuration tree, the snapshot fields and the patch values are all
  \<^verbatim>\<open>unknown\<close> at run time and are inspected with \<^verbatim>\<open>typeof\<close>, \<^verbatim>\<open>Array.isArray\<close>
  and \<^verbatim>\<open>== null\<close>. The embedding keeps that shape.

  \<^item> \<open>JUndef\<close> is \<^verbatim>\<open>undefined\<close> (a patch value of a blank numeric input, a missing
    property, a hole of an array), \<open>JNull\<close> is \<^verbatim>\<open>null\<close>.
  \<^item> \<open>JNum\<close> carries an integer: numbers with a fractional part and the negative zero
    are not represented.
  \<^item> \<open>JObj\<close> is a plain object: its own enumerable properties in the order
    \<^verbatim>\<open>Object.entries\<close> lists them.
  \<^item> \<open>JArr xs ps\<close> is an array with the elements \<open>xs\<close>; an array is an object too
    (\<^verbatim>\<open>typeof [] === "object"\<close>) and \<open>ps\<close> holds the own properties it has been given
    under names that are not array indices.

  Property names are taken to be names of own data properties. For the keys of a path
  the names of members inherited from \<^verbatim>\<open>Object.prototype\<close> and
  \<^verbatim>\<open>Array.prototype\<close> and the \<^verbatim>\<open>length\<close> of an array are not among the keys
  considered, and numeric path segments are array indices (non-negative integers).
  The field names the projections of a snapshot read are fixed, and none of them is the
  name of a member that an object or an array inherits. The conversion \<^verbatim>\<open>String(v)\<close>
  and the method call \<^verbatim>\<open>value.map(...)\<close> do look up \<^verbatim>\<open>toString\<close>, \<^verbatim>\<open>join\<close> and
  \<^verbatim>\<open>map\<close>, and an own property of that name hides the inherited method.
\<close>

datatype jv =
    JUndef
  | JNull
  | JBool bool
  | JNum int
  | JStr string
  | JArr "jv list" "(string \<times> jv) list"
  | JObj "(string \<times> jv) list"

text \<open>A path segment: \<^verbatim>\<open>string | number\<close>.\<close>

datatype seg = Key string | Idx nat

text \<open>\<^verbatim>\<open>v == null\<close>.\<close>

fun isNullish :: "jv \<Rightarrow> bool" where
  "isNullish JUndef = True"
| "isNullish JNull = True"
| "isNullish _ = False"

text \<open>\<^verbatim>\<open>typeof v === "object" && v != null\<close>: arrays pass this test as well as plain objects.\<close>

fun isObjectLike :: "jv \<Rightarrow> bool" where
  "isObjectLike (JObj _) = True"
| "isObjectLike (JArr _ _) = True"
| "isObjectLike _ = False"

text \<open>\<^verbatim>\<open>Array.isArray(v)\<close>.\<close>

fun isArray :: "jv \<Rightarrow> bool" where
  "isArray (JArr _ _) = True"
| "isArray _ = False"

subsection \<open>Property keys of arrays\<close>

text \<open>
  A string key addresses an element of an array exactly when it is the canonical decimal
  form of an array index (\<^verbatim>\<open>"0"\<close>, \<^verbatim>\<open>"17"\<close>; not \<^verbatim>\<open>"01"\<close>, not \<^verbatim>\<open>""\<close>), an
  integer below \<open>2\<^sup>3\<^sup>2 - 1\<close>.
\<close>

definition digitVal :: "char \<Rightarrow> nat option" where
  "digitVal c =
     (let n = (of_char c :: nat) in if 48 \<le> n \<and> n \<le> 57 then Some (n - 48) else None)"

fun parseDigits :: "string \<Rightarrow> nat \<Rightarrow> nat option" where
  "parseDigits [] acc = Some acc"
| "parseDigits (c # cs) acc =
     (case digitVal c of None \<Rightarrow> None | Some d \<Rightarrow> parseDigits cs (10 * acc + d))"

definition arrayIndex :: "string \<Rightarrow> nat option" where
  "arrayIndex s =
     (case s of
        [] \<Rightarrow> None
      | c # cs \<Rightarrow>
          if c = CHR ''0'' \<and> cs \<noteq> [] then None
          else (case parseDigits s 0 of
                  None \<Rightarrow> None
                | Some n \<Rightarrow> if n < 4294967295 then Some n else None))"

subsection \<open>Reading and writing one slot\<close>

text \<open>\<^verbatim>\<open>xs[n]\<close> on an array: \<^verbatim>\<open>undefined\<close> beyond the end.\<close>

definition getIdx :: "jv list \<Rightarrow> nat \<Rightarrow> jv" where
  "getIdx xs n = (if n < length xs then xs ! n else JUndef)"

text \<open>\<^verbatim>\<open>xs[n] = v\<close> on an array: an index beyond the end extends the array, the slots
  between read as \<^verbatim>\<open>undefined\<close>.\<close>

definition setIdx :: "jv list \<Rightarrow> nat \<Rightarrow> jv \<Rightarrow> jv list" where
  "setIdx xs n v =
     (if n < length xs then xs[n := v]
      else xs @ replicate (n - length xs) JUndef @ [v])"

text \<open>\<^verbatim>\<open>xs.splice(n, 1)\<close>: removes the element at \<open>n\<close> and shifts the later ones down;
  nothing happens beyond the end.\<close>

definition splice1 :: "jv list \<Rightarrow> nat \<Rightarrow> jv list" where
  "splice1 xs n = take n xs @ drop (Suc n) xs"

text \<open>Own properties: lookup, assignment (an existing key keeps its place, a new key goes
  last) and \<^verbatim>\<open>delete\<close>.\<close>

definition lookupOwn :: "(string \<times> jv) list \<Rightarrow> string \<Rightarrow> jv" where
  "lookupOwn ps k = (case map_of ps k of None \<Rightarrow> JUndef | Some v \<Rightarrow> v)"

fun assignOwn :: "(string \<times> jv) list \<Rightarrow> string \<Rightarrow> jv \<Rightarrow> (string \<times> jv) list" where
  "assignOwn [] k v = [(k, v)]"
| "assignOwn (p # ps) k v = (if fst p = k then (k, v) # ps else p # assignOwn ps k v)"

definition deleteOwn :: "(string \<times> jv) list \<Rightarrow> string \<Rightarrow> (string \<times> jv) list" where
  "deleteOwn ps k = filter (\<lambda>p. fst p \<noteq> k) ps"

text \<open>\<^verbatim>\<open>record[key]\<close> with a string key. On a value that is neither an object nor an array
  the keys considered read as \<^verbatim>\<open>undefined\<close>.\<close>

fun getProp :: "jv \<Rightarrow> string \<Rightarrow> jv" where
  "getProp (JObj ps) k = lookupOwn ps k"
| "getProp (JArr xs ps) k =
     (case arrayIndex k of Some n \<Rightarrow> getIdx xs n | None \<Rightarrow> lookupOwn ps k)"
| "getProp _ k = JUndef"

text \<open>\<^verbatim>\<open>record[key] = v\<close> with a string key, on an object or an array.\<close>

fun setProp :: "jv \<Rightarrow> string \<Rightarrow> jv \<Rightarrow> jv" where
  "setProp (JObj ps) k v = JObj (assignOwn ps k v)"
| "setProp (JArr xs ps) k v =
     (case arrayIndex k of
        Some n \<Rightarrow> JArr (setIdx xs n v) ps
      | None \<Rightarrow> JArr xs (assignOwn ps k v))"
| "setProp w k v = w"

text \<open>\<^verbatim>\<open>delete record[key]\<close> with a string key: deleting an element of an array leaves a
  hole, later elements keep their index.\<close>

fun deleteProp :: "jv \<Rightarrow> string \<Rightarrow> jv" where
  "deleteProp (JObj ps) k = JObj (deleteOwn ps k)"
| "deleteProp (JArr xs ps) k =
     (case arrayIndex k of
        Some n \<Rightarrow> JArr (if n < length xs then xs[n := JUndef] else xs) ps
      | None \<Rightarrow> JArr xs (deleteOwn ps k))"
| "deleteProp w k = w"

section \<open>The path mutator\<close>

text \<open>
  \<^verbatim>\<open>setPathValue\<close> and \<^verbatim>\<open>removePathValue\<close> mutate the tree in place while a cursor
  \<^verbatim>\<open>current\<close> walks down the path. The embedding returns the tree after the call: each
  level rebuilds its container around the result of the level below, so a level that
  returns early hands back its value unchanged, and a container created on the way down
  stays in the result.
\<close>

text \<open>The container created for an absent slot:
  \<^verbatim>\<open>typeof nextKey === "number" ? [] : {}\<close>.\<close>

fun freshFor :: "seg \<Rightarrow> jv" where
  "freshFor (Idx _) = JArr [] []"
| "freshFor (Key _) = JObj []"

text \<open>The slot the walk continues in: created when it holds \<^verbatim>\<open>null\<close> or
  \<^verbatim>\<open>undefined\<close>, kept otherwise.\<close>

definition orCreate :: "jv \<Rightarrow> seg \<Rightarrow> jv" where
  "orCreate slot nextKey = (if isNullish slot then freshFor nextKey else slot)"

fun setPathValue :: "jv \<Rightarrow> seg list \<Rightarrow> jv \<Rightarrow> jv" where
  "setPathValue current [] v = current"
| "setPathValue current [Idx n] v =
     (case current of JArr xs ps \<Rightarrow> JArr (setIdx xs n v) ps | _ \<Rightarrow> current)"
| "setPathValue current [Key k] v =
     (if isObjectLike current then setProp current k v else current)"
| "setPathValue current (Idx n # nextKey # rest) v =
     (case current of
        JArr xs ps \<Rightarrow>
          JArr (setIdx xs n
                  (setPathValue (orCreate (getIdx xs n) nextKey) (nextKey # rest) v)) ps
      | _ \<Rightarrow> current)"
| "setPathValue current (Key k # nextKey # rest) v =
     (if isObjectLike current
      then setProp current k
             (setPathValue (orCreate (getProp current k) nextKey) (nextKey # rest) v)
      else current)"

fun removePathValue :: "jv \<Rightarrow> seg list \<Rightarrow> jv" where
  "removePathValue current [] = current"
| "removePathValue current [Idx n] =
     (case current of JArr xs ps \<Rightarrow> JArr (splice1 xs n) ps | _ \<Rightarrow> current)"
| "removePathValue current [Key k] =
     (if isObjectLike current then deleteProp current k else current)"
| "removePathValue current (Idx n # rest) =
     (case current of
        JArr xs ps \<Rightarrow>
          if isNullish (getIdx xs n) then current
          else JArr (setIdx xs n (removePathValue (getIdx xs n) rest)) ps
      | _ \<Rightarrow> current)"
| "removePathValue current (Key k # rest) =
     (if isObjectLike current
      then (if isNullish (getProp current k) then current
            else setProp current k (removePathValue (getProp current k) rest))
      else current)"

text \<open>\<^verbatim>\<open>cloneConfigObject\<close>: \<^verbatim>\<open>structuredClone\<close> returns a structurally equal value that
  shares nothing with its argument. Values of the embedding have no identity, so the copy
  is the value itself. (The branch through \<^verbatim>\<open>JSON.parse(JSON.stringify(value))\<close>, taken
  only on a platform without \<^verbatim>\<open>structuredClone\<close>, is not part of the embedding.)\<close>

definition cloneConfigObject :: "jv \<Rightarrow> jv" where
  "cloneConfigObject v = v"


section \<open>Conversions of the platform\<close>

text \<open>\<^verbatim>\<open>Boolean(v)\<close>, the test of \<^verbatim>\<open>&&\<close>, \<^verbatim>\<open>||\<close> and \<^verbatim>\<open>?:\<close>.\<close>

fun truthy :: "jv \<Rightarrow> bool" where
  "truthy JUndef = False"
| "truthy JNull = False"
| "truthy (JBool b) = b"
| "truthy (JNum n) = (n \<noteq> 0)"
| "truthy (JStr s) = (s \<noteq> [])"
| "truthy (JArr _ _) = True"
| "truthy (JObj _) = True"

text \<open>\<^verbatim>\<open>a ?? b\<close>.\<close>

definition orElse :: "jv \<Rightarrow> jv \<Rightarrow> jv" where
  "orElse a b = (if isNullish a then b else a)"

text \<open>Decimal digits of an integer.\<close>

definition digitChar :: "nat \<Rightarrow> char" where
  "digitChar d = ''0123456789'' ! d"

fun natToString :: "nat \<Rightarrow> string" where
  "natToString n =
     (if n < 10 then [digitChar n] else natToString (n div 10) @ [digitChar (n mod 10)])"

declare natToString.simps [simp del]

definition intToString :: "int \<Rightarrow> string" where
  "intToString i = (if i < 0 then CHR ''-'' # natToString (nat (- i)) else natToString (nat i))"

text \<open>\<^verbatim>\<open>String(n)\<close> on a number. An integer of magnitude up to \<open>2\<^sup>5\<^sup>3\<close> prints as its
  decimal digits. A larger one prints as the shortest decimal that reads back as the
  same double, in exponent form from \<open>10\<^sup>2\<^sup>1\<close> on; that text is the platform's and a
  parameter here.\<close>

definition numberString :: "(int \<Rightarrow> string) \<Rightarrow> int \<Rightarrow> string" where
  "numberString largeNumber n =
     (if \<bar>n\<bar> \<le> 9007199254740992 then intToString n else largeNumber n)"

text \<open>\<^verbatim>\<open>xs.join(sep)\<close> on strings.\<close>

fun joinWith :: "string \<Rightarrow> string list \<Rightarrow> string" where
  "joinWith sep [] = []"
| "joinWith sep [x] = x"
| "joinWith sep (x # y # ys) = x @ sep @ joinWith sep (y # ys)"

text \<open>An exception raised by the platform: the conversions below raise a
  \<^verbatim>\<open>TypeError\<close> and nothing else. A computation that may raise returns \<open>Inl\<close> the
  error or \<open>Inr\<close> its value; \<open>runAll\<close> gives the values of the calls of a loop, or the
  first error raised.\<close>

datatype error = TypeError

fun runAll :: "(error + 'a) list \<Rightarrow> error + 'a list" where
  "runAll [] = Inr []"
| "runAll (Inl e # rest) = Inl e"
| "runAll (Inr x # rest) = (case runAll rest of Inl e \<Rightarrow> Inl e | Inr xs \<Rightarrow> Inr (x # xs))"

text \<open>\<^verbatim>\<open>Object.hasOwn(v, key)\<close> on the own properties of an object or an array.\<close>

definition hasOwn :: "(string \<times> jv) list \<Rightarrow> string \<Rightarrow> bool" where
  "hasOwn ps k = list_ex (\<lambda>p. fst p = k) ps"

text \<open>
  \<^verbatim>\<open>String(v)\<close>. On an object or an array the conversion calls the method \<^verbatim>\<open>toString\<close>
  of the value, then \<^verbatim>\<open>valueOf\<close>, and raises a \<^verbatim>\<open>TypeError\<close> when neither gives a
  primitive. The values here hold data only, so an own property \<^verbatim>\<open>toString\<close> is never
  callable and hides the inherited method; \<^verbatim>\<open>valueOf\<close>, own or inherited, gives no
  primitive: the conversion raises. Without such a property a plain object gives
  \<^verbatim>\<open>[object Object]\<close>, and an array calls its \<^verbatim>\<open>join\<close>: the elements are converted in
  turn and joined with commas, \<^verbatim>\<open>null\<close> and \<^verbatim>\<open>undefined\<close> elements giving the empty
  string; an array with an own property \<^verbatim>\<open>join\<close> gives \<^verbatim>\<open>[object Array]\<close>.
\<close>

fun jsString :: "(int \<Rightarrow> string) \<Rightarrow> jv \<Rightarrow> error + string" where
  "jsString largeNumber JUndef = Inr ''undefined''"
| "jsString largeNumber JNull = Inr ''null''"
| "jsString largeNumber (JBool b) = Inr (if b then ''true'' else ''false'')"
| "jsString largeNumber (JNum n) = Inr (numberString largeNumber n)"
| "jsString largeNumber (JStr s) = Inr s"
| "jsString largeNumber (JArr xs ps) =
     (if hasOwn ps ''toString'' then Inl TypeError
      else if hasOwn ps ''join'' then Inr ''[object Array]''
      else (case runAll (map (\<lambda>x. if isNullish x then Inr [] else jsString largeNumber x) xs) of
              Inl e \<Rightarrow> Inl e
            | Inr parts \<Rightarrow> Inr (joinWith '','' parts)))"
| "jsString largeNumber (JObj ps) =
     (if hasOwn ps ''toString'' then Inl TypeError else Inr ''[object Object]'')"

text \<open>White space of \<^verbatim>\<open>trim\<close> and \<^verbatim>\<open>trimEnd\<close>. A character is a code unit below 256;
  of the white space and line terminators of the language those are tab, line feed,
  vertical tab, form feed, carriage return, space and the no-break space.\<close>

definition isSpace :: "char \<Rightarrow> bool" where
  "isSpace c =
     (c = CHR '' '' \<or> (9 \<le> (of_char c :: nat) \<and> (of_char c :: nat) \<le> 13)
      \<or> (of_char c :: nat) = 160)"

definition trimStart :: "string \<Rightarrow> string" where
  "trimStart s = dropWhile isSpace s"

definition trimEnd :: "string \<Rightarrow> string" where
  "trimEnd s = rev (dropWhile isSpace (rev s))"

definition trim :: "string \<Rightarrow> string" where
  "trim s = trimEnd (trimStart s)"

section \<open>The configuration state\<close>

text \<open>
  \<^verbatim>\<open>ConfigSnapshot\<close> is declared in \<^verbatim>\<open>../types\<close>; the controller reads its four fields
  and checks the type of each at run time, so each is a value here.
\<close>

record ConfigSnapshot =
  config :: jv
  raw :: jv
  valid :: jv
  issues :: jv

subsection \<open>Defaulting and coercion\<close>

text \<open>The shapes of defaulting the projections use:
  \<^verbatim>\<open>typeof v === "boolean" ? v : d\<close>, \<^verbatim>\<open>typeof v === "string" ? v : ""\<close>,
  \<^verbatim>\<open>typeof v === "number" ? String(v) : ""\<close> and
  \<^verbatim>\<open>v && typeof v === "object" ? v : {}\<close>.\<close>

fun boolOr :: "jv \<Rightarrow> bool \<Rightarrow> bool" where
  "boolOr (JBool b) d = b"
| "boolOr _ d = d"

fun stringOrEmpty :: "jv \<Rightarrow> string" where
  "stringOrEmpty (JStr s) = s"
| "stringOrEmpty _ = []"

fun numberOrEmpty :: "(int \<Rightarrow> string) \<Rightarrow> jv \<Rightarrow> string" where
  "numberOrEmpty largeNumber (JNum n) = numberString largeNumber n"
| "numberOrEmpty largeNumber _ = []"

definition objectOrEmpty :: "jv \<Rightarrow> jv" where
  "objectOrEmpty v = (if truthy v \<and> isObjectLike v then v else JObj [])"

text \<open>\<^verbatim>\<open>toList\<close>: the elements of an array as trimmed strings, the empty ones dropped,
  joined with a comma and a space; the empty string for anything else. The call
  \<^verbatim>\<open>value.map(...)\<close> raises when the array has an own property \<^verbatim>\<open>map\<close>, and
  \<^verbatim>\<open>String(v ?? "")\<close> raises as described above.\<close>

fun toList :: "(int \<Rightarrow> string) \<Rightarrow> jv \<Rightarrow> error + string" where
  "toList largeNumber (JArr xs ps) =
     (if hasOwn ps ''map'' then Inl TypeError
      else (case runAll (map (\<lambda>v. jsString largeNumber (orElse v (JStr []))) xs) of
              Inl e \<Rightarrow> Inl e
            | Inr strings \<Rightarrow>
                Inr (joinWith '', '' (filter (\<lambda>v. length v > 0) (map trim strings)))))"
| "toList largeNumber _ = Inr []"

text \<open>\<^verbatim>\<open>Object.entries\<close>: of an object its properties; of an array its elements under
  their indices, then its other properties (a hole and an element that is
  \<^verbatim>\<open>undefined\<close> are not told apart here: a snapshot holds neither); nothing for the
  other values the projections pass.\<close>

fun indexed :: "nat \<Rightarrow> jv list \<Rightarrow> (string \<times> jv) list" where
  "indexed i [] = []"
| "indexed i (x # xs) = (natToString i, x) # indexed (Suc i) xs"

fun objectEntries :: "jv \<Rightarrow> (string \<times> jv) list" where
  "objectEntries (JObj ps) = ps"
| "objectEntries (JArr xs ps) = indexed 0 xs @ ps"
| "objectEntries _ = []"

text \<open>The entries of a section that holds one record per key:
  \<^verbatim>\<open>Array.isArray(v) ? [] : typeof v === "object" && v ? Object.entries(v).map(f) : []\<close>.\<close>

definition keyedEntries :: "jv \<Rightarrow> (string \<times> jv) list" where
  "keyedEntries v =
     (if isArray v then [] else if isObjectLike v \<and> truthy v then objectEntries v else [])"

subsection \<open>The Telegram projection\<close>

record TelegramForm =
  token :: string
  requireMention :: bool
  allowFrom :: string
  proxy :: string
  webhookUrl :: string
  webhookSecret :: string
  webhookPath :: string

text \<open>Lines 113 to 139 of the controller: the value assigned to \<^verbatim>\<open>state.telegramForm\<close>,
  or the error raised before the assignment.\<close>

definition telegramProjection :: "(int \<Rightarrow> string) \<Rightarrow> jv \<Rightarrow> error + TelegramForm" where
  "telegramProjection largeNumber telegram =
     (let telegramGroups = objectOrEmpty (getProp telegram ''groups'');
          telegramDefaultGroup = objectOrEmpty (getProp telegramGroups ''*'')
      in case (if isArray (getProp telegram ''allowFrom'')
               then toList largeNumber (getProp telegram ''allowFrom'')
               else Inr (stringOrEmpty (getProp telegram ''allowFrom''))) of
           Inl e \<Rightarrow> Inl e
         | Inr allowFrom' \<Rightarrow>
             Inr \<lparr> token = stringOrEmpty (getProp telegram ''botToken''),
                   requireMention =
                     boolOr (getProp telegramDefaultGroup ''requireMention'') True,
                   allowFrom = allowFrom',
                   proxy = stringOrEmpty (getProp telegram ''proxy''),
                   webhookUrl = stringOrEmpty (getProp telegram ''webhookUrl''),
                   webhookSecret = stringOrEmpty (getProp telegram ''webhookSecret''),
                   webhookPath = stringOrEmpty (getProp telegram ''webhookPath'') \<rparr>)"

text \<open>The record of all defaults, as the test file of the controller has it.\<close>

definition baseTelegramForm :: TelegramForm where
  "baseTelegramForm =
     \<lparr> token = [], requireMention = True, allowFrom = [], proxy = [], webhookUrl = [],
       webhookSecret = [], webhookPath = [] \<rparr>"

subsection \<open>The Discord projection\<close>

record DiscordActionForm =
  reactions :: bool
  stickers :: bool
  polls :: bool
  permissions :: bool
  messages :: bool
  threads :: bool
  pins :: bool
  search :: bool
  memberInfo :: bool
  roleInfo :: bool
  channelInfo :: bool
  voiceStatus :: bool
  events :: bool
  roles :: bool
  moderation :: bool

record DiscordGuildChannelForm =
  key :: string
  allow :: bool
  requireMention :: bool

definition discordGuildChannelForm :: "string \<times> jv \<Rightarrow> DiscordGuildChannelForm" where
  "discordGuildChannelForm kv =
     (let channel = objectOrEmpty (snd kv)
      in \<lparr> key = fst kv,
           allow = boolOr (getProp channel ''allow'') True,
           requireMention = boolOr (getProp channel ''requireMention'') False \<rparr>)"

record DiscordGuildForm =
  key :: string
  slug :: string
  requireMention :: bool
  reactionNotifications :: string
  users :: string
  channels :: "DiscordGuildChannelForm list"

text \<open>One entry of \<^verbatim>\<open>discord.guilds\<close>. A string compared equal to one of the accepted
  names is that name.\<close>

definition discordGuildForm ::
  "(int \<Rightarrow> string) \<Rightarrow> string \<times> jv \<Rightarrow> error + DiscordGuildForm" where
  "discordGuildForm largeNumber kv =
     (let entry = objectOrEmpty (snd kv);
          channelsRaw = objectOrEmpty (getProp entry ''channels'');
          channels' = map discordGuildChannelForm (objectEntries channelsRaw)
      in case toList largeNumber (getProp entry ''users'') of
           Inl e \<Rightarrow> Inl e
         | Inr users' \<Rightarrow>
             Inr \<lparr> key = fst kv,
                   slug = stringOrEmpty (getProp entry ''slug''),
                   requireMention = boolOr (getProp entry ''requireMention'') False,
                   reactionNotifications =
                     (if getProp entry ''reactionNotifications'' = JStr ''off''
                         \<or> getProp entry ''reactionNotifications'' = JStr ''all''
                         \<or> getProp entry ''reactionNotifications'' = JStr ''own''
                         \<or> getProp entry ''reactionNotifications'' = JStr ''allowlist''
                      then stringOrEmpty (getProp entry ''reactionNotifications'')
                      else ''own''),
                   users = users',
                   channels = channels' \<rparr>)"

record DiscordForm =
  enabled :: bool
  token :: string
  dmEnabled :: bool
  allowFrom :: string
  groupEnabled :: bool
  groupChannels :: string
  mediaMaxMb :: string
  historyLimit :: string
  textChunkLimit :: string
  replyToMode :: string
  guilds :: "DiscordGuildForm list"
  actions :: DiscordActionForm
  slashEnabled :: bool
  slashName :: string
  slashSessionPrefix :: string
  slashEphemeral :: bool

text \<open>\<^verbatim>\<open>defaultDiscordActions\<close> is a constant of \<^verbatim>\<open>../ui-types\<close> and a parameter here;
  \<^verbatim>\<open>readAction(key)\<close> is \<^verbatim>\<open>boolOr\<close> of the field with the default of that key.\<close>

definition discordProjection ::
  "(int \<Rightarrow> string) \<Rightarrow> DiscordActionForm \<Rightarrow> jv \<Rightarrow> error + DiscordForm" where
  "discordProjection largeNumber defaultDiscordActions discord =
     (let discordDm = orElse (getProp discord ''dm'') (JObj []);
          slash = orElse (getProp discord ''slashCommand'') (JObj []);
          discordActions = orElse (getProp discord ''actions'') (JObj []);
          discordGuilds = getProp discord ''guilds''
      in case toList largeNumber (getProp discordDm ''allowFrom'') of
           Inl e \<Rightarrow> Inl e
         | Inr allowFrom' \<Rightarrow>
      (case toList largeNumber (getProp discordDm ''groupChannels'') of
           Inl e \<Rightarrow> Inl e
         | Inr groupChannels' \<Rightarrow>
      (case runAll (map (discordGuildForm largeNumber) (keyedEntries discordGuilds)) of
           Inl e \<Rightarrow> Inl e
         | Inr guilds' \<Rightarrow>
       Inr \<lparr> enabled = boolOr (getProp discord ''enabled'') True,
           token = stringOrEmpty (getProp discord ''token''),
           dmEnabled = boolOr (getProp discordDm ''enabled'') True,
           allowFrom = allowFrom',
           groupEnabled = boolOr (getProp discordDm ''groupEnabled'') False,
           groupChannels = groupChannels',
           mediaMaxMb = numberOrEmpty largeNumber (getProp discord ''mediaMaxMb''),
           historyLimit = numberOrEmpty largeNumber (getProp discord ''historyLimit''),
           textChunkLimit = numberOrEmpty largeNumber (getProp discord ''textChunkLimit''),
           replyToMode =
             (if getProp discord ''replyToMode'' = JStr ''first''
                 \<or> getProp discord ''replyToMode'' = JStr ''all''
              then stringOrEmpty (getProp discord ''replyToMode'')
              else ''off''),
           guilds = guilds',
           actions =
             \<lparr> reactions = boolOr (getProp discordActions ''reactions'')
                               (reactions defaultDiscordActions),
               stickers = boolOr (getProp discordActions ''stickers'')
                              (stickers defaultDiscordActions),
               polls = boolOr (getProp discordActions ''polls'') (polls defaultDiscordActions),
               permissions = boolOr (getProp discordActions ''permissions'')
                                 (permissions defaultDiscordActions),
               messages = boolOr (getProp discordActions ''messages'')
                              (messages defaultDiscordActions),
               threads = boolOr (getProp discordActions ''threads'')
                             (threads defaultDiscordActions),
               pins = boolOr (getProp discordActions ''pins'') (pins defaultDiscordActions),
               search = boolOr (getProp discordActions ''search'')
                            (search defaultDiscordActions),
               memberInfo = boolOr (getProp discordActions ''memberInfo'')
                                (memberInfo defaultDiscordActions),
               roleInfo = boolOr (getProp discordActions ''roleInfo'')
                              (roleInfo defaultDiscordActions),
               channelInfo = boolOr (getProp discordActions ''channelInfo'')
                                 (channelInfo defaultDiscordActions),
               voiceStatus = boolOr (getProp discordActions ''voiceStatus'')
                                 (voiceStatus defaultDiscordActions),
               events = boolOr (getProp discordActions ''events'')
                            (events defaultDiscordActions),
               roles = boolOr (getProp discordActions ''roles'') (roles defaultDiscordActions),
               moderation = boolOr (getProp discordActions ''moderation'')
                                (moderation defaultDiscordActions) \<rparr>,
           slashEnabled = boolOr (getProp slash ''enabled'') False,
           slashName = stringOrEmpty (getProp slash ''name''),
           slashSessionPrefix = stringOrEmpty (getProp slash ''sessionPrefix''),
           slashEphemeral = boolOr (getProp slash ''ephemeral'') True \<rparr>)))"

text \<open>The record of all defaults, as the test file of the controller has it.\<close>

definition baseDiscordForm :: "DiscordActionForm \<Rightarrow> DiscordForm" where
  "baseDiscordForm defaultDiscordActions =
     \<lparr> enabled = True, token = [], dmEnabled = True, allowFrom = [], groupEnabled = False,
       groupChannels = [], mediaMaxMb = [], historyLimit = [], textChunkLimit = [],
       replyToMode = ''off'', guilds = [], actions = defaultDiscordActions,
       slashEnabled = False, slashName = [], slashSessionPrefix = [],
       slashEphemeral = True \<rparr>"

text \<open>A value for \<^verbatim>\<open>defaultDiscordActions\<close>, to run examples with.\<close>

definition everyDiscordAction :: DiscordActionForm where
  "everyDiscordAction =
     \<lparr> reactions = True, stickers = True, polls = True, permissions = True,
       messages = True, threads = True, pins = True, search = True, memberInfo = True,
       roleInfo = True, channelInfo = True, voiceStatus = True, events = True,
       roles = True, moderation = True \<rparr>"

subsection \<open>The Signal and iMessage projections\<close>

record SignalForm =
  enabled :: bool
  account :: string
  httpUrl :: string
  httpHost :: string
  httpPort :: string
  cliPath :: string
  autoStart :: bool
  receiveMode :: string
  ignoreAttachments :: bool
  ignoreStories :: bool
  sendReadReceipts :: bool
  allowFrom :: string
  mediaMaxMb :: string

definition signalProjection :: "(int \<Rightarrow> string) \<Rightarrow> jv \<Rightarrow> error + SignalForm" where
  "signalProjection largeNumber signal =
     (case toList largeNumber (getProp signal ''allowFrom'') of
        Inl e \<Rightarrow> Inl e
      | Inr allowFrom' \<Rightarrow>
     Inr \<lparr> enabled = boolOr (getProp signal ''enabled'') True,
       account = stringOrEmpty (getProp signal ''account''),
       httpUrl = stringOrEmpty (getProp signal ''httpUrl''),
       httpHost = stringOrEmpty (getProp signal ''httpHost''),
       httpPort = numberOrEmpty largeNumber (getProp signal ''httpPort''),
       cliPath = stringOrEmpty (getProp signal ''cliPath''),
       autoStart = boolOr (getProp signal ''autoStart'') True,
       receiveMode =
         (if getProp signal ''receiveMode'' = JStr ''on-start''
             \<or> getProp signal ''receiveMode'' = JStr ''manual''
          then stringOrEmpty (getProp signal ''receiveMode'')
          else []),
       ignoreAttachments = boolOr (getProp signal ''ignoreAttachments'') False,
       ignoreStories = boolOr (getProp signal ''ignoreStories'') False,
       sendReadReceipts = boolOr (getProp signal ''sendReadReceipts'') False,
       allowFrom = allowFrom',
       mediaMaxMb = numberOrEmpty largeNumber (getProp signal ''mediaMaxMb'') \<rparr>)"

text \<open>The record of all defaults, as the test file of the controller has it.\<close>

definition baseSignalForm :: SignalForm where
  "baseSignalForm =
     \<lparr> enabled = True, account = [], httpUrl = [], httpHost = [], httpPort = [],
       cliPath = [], autoStart = True, receiveMode = [], ignoreAttachments = False,
       ignoreStories = False, sendReadReceipts = False, allowFrom = [], mediaMaxMb = [] \<rparr>"

record IMessageForm =
  enabled :: bool
  cliPath :: string
  dbPath :: string
  service :: string
  region :: string
  allowFrom :: string
  includeAttachments :: bool
  mediaMaxMb :: string

definition imessageProjection :: "(int \<Rightarrow> string) \<Rightarrow> jv \<Rightarrow> error + IMessageForm" where
  "imessageProjection largeNumber imessage =
     (case toList largeNumber (getProp imessage ''allowFrom'') of
        Inl e \<Rightarrow> Inl e
      | Inr allowFrom' \<Rightarrow>
     Inr \<lparr> enabled = boolOr (getProp imessage ''enabled'') True,
       cliPath = stringOrEmpty (getProp imessage ''cliPath''),
       dbPath = stringOrEmpty (getProp imessage ''dbPath''),
       service =
         (if getProp imessage ''service'' = JStr ''imessage''
             \<or> getProp imessage ''service'' = JStr ''sms''
             \<or> getProp imessage ''service'' = JStr ''auto''
          then stringOrEmpty (getProp imessage ''service'')
          else ''auto''),
       region = stringOrEmpty (getProp imessage ''region''),
       allowFrom = allowFrom',
       includeAttachments = boolOr (getProp imessage ''includeAttachments'') False,
       mediaMaxMb = numberOrEmpty largeNumber (getProp imessage ''mediaMaxMb'') \<rparr>)"

text \<open>The record of all defaults, as the test file of the controller has it.\<close>

definition baseIMessageForm :: IMessageForm where
  "baseIMessageForm =
     \<lparr> enabled = True, cliPath = [], dbPath = [], service = ''auto'', region = [],
       allowFrom = [], includeAttachments = False, mediaMaxMb = [] \<rparr>"

subsection \<open>The Slack projection\<close>

record SlackActionForm =
  reactions :: bool
  messages :: bool
  pins :: bool
  memberInfo :: bool
  emojiList :: bool

record SlackChannelForm =
  key :: string
  allow :: bool
  requireMention :: bool

record SlackForm =
  enabled :: bool
  botToken :: string
  appToken :: string
  dmEnabled :: bool
  allowFrom :: string
  groupEnabled :: bool
  groupChannels :: string
  mediaMaxMb :: string
  textChunkLimit :: string
  reactionNotifications :: string
  reactionAllowlist :: string
  slashEnabled :: bool
  slashName :: string
  slashSessionPrefix :: string
  slashEphemeral :: bool
  actions :: SlackActionForm
  channels :: "SlackChannelForm list"

text \<open>One entry of \<^verbatim>\<open>slack.channels\<close>.\<close>

definition slackChannelForm :: "string \<times> jv \<Rightarrow> SlackChannelForm" where
  "slackChannelForm kv =
     (let entry = objectOrEmpty (snd kv)
      in \<lparr> key = fst kv,
           allow = boolOr (getProp entry ''allow'') True,
           requireMention = boolOr (getProp entry ''requireMention'') False \<rparr>)"

text \<open>Lines 244 to 324 of the controller: the value assigned to \<^verbatim>\<open>state.slackForm\<close>,
  or the error raised before the assignment. \<^verbatim>\<open>defaultSlackActions\<close> is a constant of
  \<^verbatim>\<open>../ui-types\<close> and a parameter here; the projection spreads it and overrides the five
  keys it reads.\<close>

definition slackProjection ::
  "(int \<Rightarrow> string) \<Rightarrow> SlackActionForm \<Rightarrow> jv \<Rightarrow> error + SlackForm" where
  "slackProjection largeNumber defaultSlackActions slack =
     (let slackDm = orElse (getProp slack ''dm'') (JObj []);
          slackChannels = getProp slack ''channels'';
          slackSlash = orElse (getProp slack ''slashCommand'') (JObj []);
          slackActions = orElse (getProp slack ''actions'') (JObj [])
      in case toList largeNumber (getProp slackDm ''allowFrom'') of
           Inl e \<Rightarrow> Inl e
         | Inr allowFrom' \<Rightarrow>
      (case toList largeNumber (getProp slackDm ''groupChannels'') of
           Inl e \<Rightarrow> Inl e
         | Inr groupChannels' \<Rightarrow>
      (case toList largeNumber (getProp slack ''reactionAllowlist'') of
           Inl e \<Rightarrow> Inl e
         | Inr reactionAllowlist' \<Rightarrow>
       Inr \<lparr> enabled = boolOr (getProp slack ''enabled'') True,
           botToken = stringOrEmpty (getProp slack ''botToken''),
           appToken = stringOrEmpty (getProp slack ''appToken''),
           dmEnabled = boolOr (getProp slackDm ''enabled'') True,
           allowFrom = allowFrom',
           groupEnabled = boolOr (getProp slackDm ''groupEnabled'') False,
           groupChannels = groupChannels',
           mediaMaxMb = numberOrEmpty largeNumber (getProp slack ''mediaMaxMb''),
           textChunkLimit = numberOrEmpty largeNumber (getProp slack ''textChunkLimit''),
           reactionNotifications =
             (if getProp slack ''reactionNotifications'' = JStr ''off''
                 \<or> getProp slack ''reactionNotifications'' = JStr ''all''
                 \<or> getProp slack ''reactionNotifications'' = JStr ''allowlist''
              then stringOrEmpty (getProp slack ''reactionNotifications'')
              else ''own''),
           reactionAllowlist = reactionAllowlist',
           slashEnabled = boolOr (getProp slackSlash ''enabled'') False,
           slashName = stringOrEmpty (getProp slackSlash ''name''),
           slashSessionPrefix = stringOrEmpty (getProp slackSlash ''sessionPrefix''),
           slashEphemeral = boolOr (getProp slackSlash ''ephemeral'') True,
           actions = defaultSlackActions
             \<lparr> reactions := boolOr (getProp slackActions ''reactions'')
                               (reactions defaultSlackActions),
               messages := boolOr (getProp slackActions ''messages'')
                              (messages defaultSlackActions),
               pins := boolOr (getProp slackActions ''pins'') (pins defaultSlackActions),
               memberInfo := boolOr (getProp slackActions ''memberInfo'')
                                (memberInfo defaultSlackActions),
               emojiList := boolOr (getProp slackActions ''emojiList'')
                               (emojiList defaultSlackActions) \<rparr>,
           channels = map slackChannelForm (keyedEntries slackChannels) \<rparr>)))"

text \<open>The record of all defaults, as the test file of the controller has it.\<close>

definition baseSlackForm :: "SlackActionForm \<Rightarrow> SlackForm" where
  "baseSlackForm defaultSlackActions =
     \<lparr> enabled = True, botToken = [], appToken = [], dmEnabled = True, allowFrom = [],
       groupEnabled = False, groupChannels = [], mediaMaxMb = [], textChunkLimit = [],
       reactionNotifications = ''own'', reactionAllowlist = [], slashEnabled = False,
       slashName = [], slashSessionPrefix = [], slashEphemeral = True,
       actions = defaultSlackActions, channels = [] \<rparr>"

text \<open>A value for \<^verbatim>\<open>defaultSlackActions\<close>, to run examples with.\<close>

definition everySlackAction :: SlackActionForm where
  "everySlackAction =
     \<lparr> reactions = True, messages = True, pins = True, memberInfo = True,
       emojiList = True \<rparr>"

subsection \<open>The state\<close>

datatype GatewayBrowserClient = GatewayBrowserClient

datatype FormMode = FormMode | RawMode

record ConfigState =
  client :: "GatewayBrowserClient option"
  connected :: bool
  configLoading :: bool
  configRaw :: string
  configValid :: "bool option"
  configIssues :: "jv list"
  configSaving :: bool
  configSnapshot :: "ConfigSnapshot option"
  configSchema :: jv
  configSchemaVersion :: jv
  configSchemaLoading :: bool
  configUiHints :: jv
  configForm :: jv
  configFormDirty :: bool
  configFormMode :: FormMode
  lastError :: "string option"
  telegramForm :: TelegramForm
  discordForm :: DiscordForm
  slackForm :: SlackForm
  signalForm :: SignalForm
  imessageForm :: IMessageForm
  telegramConfigStatus :: "string option"
  discordConfigStatus :: "string option"
  slackConfigStatus :: "string option"
  signalConfigStatus :: "string option"
  imessageConfigStatus :: "string option"

text \<open>
  What the controller takes from outside its source file: of the platform
  \<^verbatim>\<open>JSON.stringify(v, null, 2)\<close>, the text of a number beyond \<open>2\<^sup>5\<^sup>3\<close> and the text
  \<^verbatim>\<open>String(err)\<close> of an error it has raised; and the two constants of \<^verbatim>\<open>../ui-types\<close>.
\<close>

record Imports =
  stringify :: "jv \<Rightarrow> string"
  largeNumberString :: "int \<Rightarrow> string"
  errorString :: "error \<Rightarrow> string"
  defaultDiscordActions :: DiscordActionForm
  defaultSlackActions :: SlackActionForm

subsection \<open>Applying a snapshot\<close>

text \<open>
  \<^verbatim>\<open>applyConfigSnapshot\<close> assigns to the state field by field and may raise on the way
  (in \<^verbatim>\<open>toList\<close>), so it returns the state as the call leaves it together with the error
  raised, \<open>None\<close> when it returns normally. The raw text is taken from the snapshot
  when it is a string, printed from the configuration when that is an object, and kept
  otherwise. Then the five projections are computed and assigned one after the other,
  in the order Telegram, Discord, Slack, Signal, iMessage: an error raised while one is
  computed leaves that projection and everything after it as it was. The form value
  is replaced last, and only when the form is not dirty.
\<close>

text \<open>\<^verbatim>\<open>(config.name ?? {})\<close> with \<^verbatim>\<open>config = snapshot.config ?? {}\<close>.\<close>

definition sectionOf :: "ConfigSnapshot \<Rightarrow> string \<Rightarrow> jv" where
  "sectionOf snapshot name =
     orElse (getProp (orElse (config snapshot) (JObj [])) name) (JObj [])"

definition applyConfigSnapshot ::
  "Imports \<Rightarrow> ConfigState \<Rightarrow> ConfigSnapshot \<Rightarrow> ConfigState \<times> error option" where
  "applyConfigSnapshot env state snapshot =
     (let telegram = sectionOf snapshot ''telegram'';
          discord = sectionOf snapshot ''discord'';
          slack = sectionOf snapshot ''slack'';
          signal = sectionOf snapshot ''signal'';
          imessage = sectionOf snapshot ''imessage'';
          configInvalid = (if valid snapshot = JBool False then Some ''Config invalid.'' else None);
          state1 = state
            \<lparr> configSnapshot := Some snapshot,
              configRaw :=
                (case raw snapshot of
                   JStr r \<Rightarrow> r
                 | _ \<Rightarrow>
                     if truthy (config snapshot) \<and> isObjectLike (config snapshot)
                     then trimEnd (stringify env (config snapshot)) @ [CHR 0x0A]
                     else configRaw state),
              configValid := (case valid snapshot of JBool b \<Rightarrow> Some b | _ \<Rightarrow> None),
              configIssues := (case issues snapshot of JArr xs ps \<Rightarrow> xs | _ \<Rightarrow> []) \<rparr>
      in case telegramProjection (largeNumberString env) telegram of
           Inl e \<Rightarrow> (state1, Some e)
         | Inr telegramForm' \<Rightarrow>
      (let state2 = state1 \<lparr> telegramForm := telegramForm' \<rparr>
       in case discordProjection (largeNumberString env) (defaultDiscordActions env) discord of
           Inl e \<Rightarrow> (state2, Some e)
         | Inr discordForm' \<Rightarrow>
      (let state3 = state2 \<lparr> discordForm := discordForm' \<rparr>
       in case slackProjection (largeNumberString env) (defaultSlackActions env) slack of
           Inl e \<Rightarrow> (state3, Some e)
         | Inr slackForm' \<Rightarrow>
      (let state4 = state3 \<lparr> slackForm := slackForm' \<rparr>
       in case signalProjection (largeNumberString env) signal of
           Inl e \<Rightarrow> (state4, Some e)
         | Inr signalForm' \<Rightarrow>
      (let state5 = state4 \<lparr> signalForm := signalForm' \<rparr>
       in case imessageProjection (largeNumberString env) imessage of
           Inl e \<Rightarrow> (state5, Some e)
         | Inr imessageForm' \<Rightarrow>
             (state5
                \<lparr> imessageForm := imessageForm',
                  telegramConfigStatus := configInvalid,
                  discordConfigStatus := configInvalid,
                  slackConfigStatus := configInvalid,
                  signalConfigStatus := configInvalid,
                  imessageConfigStatus := configInvalid,
                  configForm :=
                    (if \<not> configFormDirty state
                     then cloneConfigObject (orElse (config snapshot) (JObj []))
                     else configForm state) \<rparr>,
              None))))))"

subsection \<open>Patching the form value\<close>

text \<open>The seed of a patch:
  \<^verbatim>\<open>state.configForm ?? state.configSnapshot?.config ?? {}\<close>.\<close>

definition formSeed :: "ConfigState \<Rightarrow> jv" where
  "formSeed state =
     orElse (orElse (configForm state)
               (case configSnapshot state of None \<Rightarrow> JUndef | Some snapshot \<Rightarrow> config snapshot))
       (JObj [])"

definition updateConfigFormValue :: "ConfigState \<Rightarrow> seg list \<Rightarrow> jv \<Rightarrow> ConfigState" where
  "updateConfigFormValue state path v =
     (let base = setPathValue (cloneConfigObject (formSeed state)) path v
      in state \<lparr> configForm := base, configFormDirty := True \<rparr>)"

definition removeConfigFormValue :: "ConfigState \<Rightarrow> seg list \<Rightarrow> ConfigState" where
  "removeConfigFormValue state path =
     (let base = removePathValue (cloneConfigObject (formSeed state)) path
      in state \<lparr> configForm := base, configFormDirty := True \<rparr>)"

subsection \<open>Requests to the gateway\<close>

text \<open>
  \<^verbatim>\<open>loadConfig\<close>, \<^verbatim>\<open>loadConfigSchema\<close> and \<^verbatim>\<open>saveConfig\<close> are \<^verbatim>\<open>async\<close>. Each runs
  without interruption up to its \<^verbatim>\<open>await\<close> of \<^verbatim>\<open>state.client.request(...)\<close>; the
  function of that name gives the state at that point and the request handed to the
  transport (\<open>None\<close> when the call returned without sending). What the function does
  once the request has settled is a second function, applied to the state of that
  moment and to the outcome: \<open>Inl\<close> the text of the error, \<open>Inr\<close> the response.
  An error raised by \<^verbatim>\<open>applyConfigSnapshot\<close> is caught like a failed request: its text
  goes to \<^verbatim>\<open>lastError\<close>.
\<close>

datatype request = Request string jv

type_synonym 'a response = "string + 'a"

definition loadConfig :: "ConfigState \<Rightarrow> ConfigState \<times> request option" where
  "loadConfig state =
     (if client state = None \<or> \<not> connected state then (state, None)
      else (state \<lparr> configLoading := True, lastError := None \<rparr>,
            Some (Request ''config.get'' (JObj []))))"

definition loadConfig_settled ::
  "Imports \<Rightarrow> ConfigState \<Rightarrow> ConfigSnapshot response \<Rightarrow> ConfigState" where
  "loadConfig_settled env state res =
     (case res of
        Inr snapshot \<Rightarrow>
          (case applyConfigSnapshot env state snapshot of
             (state1, None) \<Rightarrow> state1 \<lparr> configLoading := False \<rparr>
           | (state1, Some e) \<Rightarrow>
               state1 \<lparr> lastError := Some (errorString env e), configLoading := False \<rparr>)
      | Inl err \<Rightarrow> state \<lparr> lastError := Some err, configLoading := False \<rparr>)"

datatype ConfigSchemaResponse =
  ConfigSchemaResponse (responseSchema: jv) (responseUiHints: jv) (responseVersion: jv)

definition applyConfigSchema :: "ConfigState \<Rightarrow> ConfigSchemaResponse \<Rightarrow> ConfigState" where
  "applyConfigSchema state res =
     state \<lparr> configSchema := orElse (responseSchema res) JNull,
             configUiHints := orElse (responseUiHints res) (JObj []),
             configSchemaVersion := orElse (responseVersion res) JNull \<rparr>"

definition loadConfigSchema :: "ConfigState \<Rightarrow> ConfigState \<times> request option" where
  "loadConfigSchema state =
     (if client state = None \<or> \<not> connected state then (state, None)
      else if configSchemaLoading state then (state, None)
      else (state \<lparr> configSchemaLoading := True \<rparr>,
            Some (Request ''config.schema'' (JObj []))))"

definition loadConfigSchema_settled ::
  "ConfigState \<Rightarrow> ConfigSchemaResponse response \<Rightarrow> ConfigState" where
  "loadConfigSchema_settled state res =
     (case res of
        Inr r \<Rightarrow> (applyConfigSchema state r) \<lparr> configSchemaLoading := False \<rparr>
      | Inl err \<Rightarrow> state \<lparr> lastError := Some err, configSchemaLoading := False \<rparr>)"

text \<open>The text \<^verbatim>\<open>saveConfig\<close> sends: the form value printed, when the mode is
  \<^verbatim>\<open>"form"\<close> and \<^verbatim>\<open>state.configForm\<close> is truthy; the raw text otherwise.\<close>

definition saveRaw :: "Imports \<Rightarrow> ConfigState \<Rightarrow> string" where
  "saveRaw env state =
     (if configFormMode state = FormMode \<and> truthy (configForm state)
      then trimEnd (stringify env (configForm state)) @ [CHR 0x0A]
      else configRaw state)"

definition saveConfig :: "Imports \<Rightarrow> ConfigState \<Rightarrow> ConfigState \<times> request option" where
  "saveConfig env state =
     (if client state = None \<or> \<not> connected state then (state, None)
      else (let state1 = state \<lparr> configSaving := True, lastError := None \<rparr>
            in (state1,
                Some (Request ''config.set''
                        (JObj [(''raw'', JStr (saveRaw env state1))])))))"

text \<open>After \<^verbatim>\<open>config.set\<close> has settled: on success the dirty flag is cleared and
  \<^verbatim>\<open>loadConfig\<close> is called; \<^verbatim>\<open>configSaving\<close> is cleared once that call is over, at
  once when it sent nothing.\<close>

definition saveConfig_settled ::
  "ConfigState \<Rightarrow> jv response \<Rightarrow> ConfigState \<times> request option" where
  "saveConfig_settled state res =
     (case res of
        Inl err \<Rightarrow> (state \<lparr> lastError := Some err, configSaving := False \<rparr>, None)
      | Inr ack \<Rightarrow>
          (case loadConfig (state \<lparr> configFormDirty := False \<rparr>) of
             (state2, None) \<Rightarrow> (state2 \<lparr> configSaving := False \<rparr>, None)
           | (state2, Some req) \<Rightarrow> (state2, Some req)))"

definition saveConfig_reloaded ::
  "Imports \<Rightarrow> ConfigState \<Rightarrow> ConfigSnapshot response \<Rightarrow> ConfigState" where
  "saveConfig_reloaded env state res =
     (loadConfig_settled env state res) \<lparr> configSaving := False \<rparr>"

subsection \<open>The initial state of the controller's tests\<close>

text \<open>\<^verbatim>\<open>createState\<close> of the test file of the controller: the initial state, with
  the base form of every integration.\<close>

definition createState :: "Imports \<Rightarrow> ConfigState" where
  "createState env =
     \<lparr> client = None, connected = False, configLoading = False, configRaw = [],
       configValid = None, configIssues = [], configSaving = False, configSnapshot = None,
       configSchema = JNull, configSchemaVersion = JNull, configSchemaLoading = False,
       configUiHints = JObj [], configForm = JNull, configFormDirty = False,
       configFormMode = FormMode, lastError = None,
       telegramForm = baseTelegramForm,
       discordForm = baseDiscordForm (defaultDiscordActions env),
       slackForm = baseSlackForm (defaultSlackActions env),
       signalForm = baseSignalForm,
       imessageForm = baseIMessageForm,
       telegramConfigStatus = None, discordConfigStatus = None, slackConfigStatus = None,
       signalConfigStatus = None, imessageConfigStatus = None \<rparr>"

section \<open>The schema normalizer\<close>

text \<open>
  \<^verbatim>\<open>JsonSchema\<close> as the form module declares it. Every field is optional; \<^verbatim>\<open>type\<close> is a
  name or a list of names, \<^verbatim>\<open>items\<close> a schema or a list of schemas,
  \<^verbatim>\<open>additionalProperties\<close> a boolean or a schema. A \<^verbatim>\<open>const\<close> that is present may hold
  \<^verbatim>\<open>null\<close>. \<^verbatim>\<open>properties\<close> lists the declared properties in the order of
  \<^verbatim>\<open>Object.entries\<close>, each key once. The schema arrives as parsed JSON, so the variants
  of a union are objects and no two nodes are the same object.
\<close>

datatype typeField = TypeName string | TypeNames "string list"

datatype 'a itemsField = OneItem 'a | ManyItems "'a list"

datatype 'a additionalField = Flag bool | Sub 'a

datatype JsonSchema = JsonSchema
  (type: "typeField option")
  (title: "string option")
  (description: "string option")
  (properties: "(string \<times> JsonSchema) list option")
  (items: "JsonSchema itemsField option")
  (additionalProperties: "JsonSchema additionalField option")
  (enum: "jv list option")
  (const: "jv option")
  (default: "jv option")
  (anyOf: "JsonSchema list option")
  (oneOf: "JsonSchema list option")
  (allOf: "JsonSchema list option")
  (nullable: "bool option")

record ConfigSchemaAnalysis =
  schema :: "JsonSchema option"
  unsupportedPaths :: "string list"

text \<open>\<^verbatim>\<open>pathKey\<close> keeps the string segments of a path and joins them with dots; the
  label of a node is its key, or \<^verbatim>\<open><root>\<close> when the key is empty.\<close>

definition pathKey :: "seg list \<Rightarrow> string" where
  "pathKey path = joinWith ''.'' (concat (map (\<lambda>s. case s of Key k \<Rightarrow> [k] | Idx n \<Rightarrow> []) path))"

definition pathLabelOf :: "seg list \<Rightarrow> string" where
  "pathLabelOf path = (if pathKey path = [] then ''<root>'' else pathKey path)"

text \<open>\<^verbatim>\<open>schemaType\<close>: of a list of names the first that is not \<^verbatim>\<open>"null"\<close>, else the
  first.\<close>

definition schemaType :: "JsonSchema \<Rightarrow> string option" where
  "schemaType s =
     (case type s of
        None \<Rightarrow> None
      | Some (TypeName t) \<Rightarrow> Some t
      | Some (TypeNames ts) \<Rightarrow>
          (case filter (\<lambda>t. t \<noteq> ''null'') ts of
             t # _ \<Rightarrow> Some t
           | [] \<Rightarrow> (case ts of [] \<Rightarrow> None | t # _ \<Rightarrow> Some t)))"

text \<open>\<^verbatim>\<open>Object.is\<close> on values of a parsed schema: equality on primitives; an object or
  an array is identical to itself only, and never occurs twice.\<close>

fun objectIs :: "jv \<Rightarrow> jv \<Rightarrow> bool" where
  "objectIs (JArr xs ps) b = False"
| "objectIs (JObj ps) b = False"
| "objectIs a b = (a = b)"

text \<open>The loop
  \<^verbatim>\<open>for (const value of values) if (!unique.some((entry) => Object.is(entry, value))) unique.push(value)\<close>.\<close>

fun pushUnique :: "jv list \<Rightarrow> jv list \<Rightarrow> jv list" where
  "pushUnique unique [] = unique"
| "pushUnique unique (v # vs) =
     pushUnique (if list_ex (\<lambda>entry. objectIs entry v) unique then unique else unique @ [v]) vs"

text \<open>\<^verbatim>\<open>normalizeEnumValues\<close> returns \<^verbatim>\<open>{ enumValues, nullable }\<close>.\<close>

definition normalizeEnumValues :: "jv list \<Rightarrow> jv list \<times> bool" where
  "normalizeEnumValues values =
     (let filtered = filter (\<lambda>v. \<not> isNullish v) values;
          nullable' = (length filtered \<noteq> length values)
      in (pushUnique [] filtered, nullable'))"

text \<open>The loop of \<^verbatim>\<open>normalizeUnion\<close> over the variants, on the three accumulators
  \<^verbatim>\<open>values\<close>, \<^verbatim>\<open>nonLiteral\<close> and \<^verbatim>\<open>nullable\<close>: a variant with an \<^verbatim>\<open>enum\<close> array gives
  its normalized values, a variant with a \<^verbatim>\<open>const\<close> key gives that value (or sets
  \<^verbatim>\<open>nullable\<close> when it is \<^verbatim>\<open>null\<close> or \<^verbatim>\<open>undefined\<close>), a variant of type
  \<^verbatim>\<open>"null"\<close> sets \<^verbatim>\<open>nullable\<close>, and any other variant is non-literal.\<close>

fun classifyVariants ::
  "JsonSchema list \<Rightarrow> jv list \<times> JsonSchema list \<times> bool \<Rightarrow> jv list \<times> JsonSchema list \<times> bool" where
  "classifyVariants [] acc = acc"
| "classifyVariants (variant # rest) (values, nonLiteral, nullable') =
     (case enum variant of
        Some es \<Rightarrow>
          classifyVariants rest
            (values @ fst (normalizeEnumValues es), nonLiteral,
             nullable' \<or> snd (normalizeEnumValues es))
      | None \<Rightarrow>
          (case const variant of
             Some c \<Rightarrow>
               if isNullish c then classifyVariants rest (values, nonLiteral, True)
               else classifyVariants rest (values @ [c], nonLiteral, nullable')
           | None \<Rightarrow>
               if schemaType variant = Some ''null''
               then classifyVariants rest (values, nonLiteral, True)
               else classifyVariants rest (values, nonLiteral @ [variant], nullable')))"

text \<open>\<^verbatim>\<open>schema.anyOf ?? schema.oneOf ?? schema.allOf\<close>, and the test
  \<^verbatim>\<open>schema.anyOf || schema.oneOf || schema.allOf\<close> (an array is truthy, also when empty).\<close>

definition unionVariants :: "JsonSchema \<Rightarrow> JsonSchema list option" where
  "unionVariants s =
     (case anyOf s of Some vs \<Rightarrow> Some vs
      | None \<Rightarrow> (case oneOf s of Some vs \<Rightarrow> Some vs | None \<Rightarrow> allOf s))"

definition hasUnion :: "JsonSchema \<Rightarrow> bool" where
  "hasUnion s = (anyOf s \<noteq> None \<or> oneOf s \<noteq> None \<or> allOf s \<noteq> None)"

text \<open>\<^verbatim>\<open>Array.from(new Set(paths))\<close>: each path once, in the order of first occurrence.\<close>

fun insertAll :: "string list \<Rightarrow> string list \<Rightarrow> string list" where
  "insertAll seen [] = seen"
| "insertAll seen (p # ps) = insertAll (if p \<in> set seen then seen else seen @ [p]) ps"

text \<open>\<^verbatim>\<open>result.schema.nullable = n\<close>.\<close>

definition withNullable :: "JsonSchema \<Rightarrow> bool option \<Rightarrow> JsonSchema" where
  "withNullable s n =
     JsonSchema (type s) (title s) (description s) (properties s) (items s)
       (additionalProperties s) (enum s) (const s) (default s) (anyOf s) (oneOf s) (allOf s) n"

text \<open>The \<^verbatim>\<open>type\<close> of \<^verbatim>\<open>normalizeSchemaNode\<close>: \<^verbatim>\<open>schemaType(schema)\<close>, or
  \<^verbatim>\<open>"object"\<close> when there is none and the node has \<^verbatim>\<open>properties\<close> or a truthy
  \<^verbatim>\<open>additionalProperties\<close>.\<close>

definition inferredType :: "JsonSchema \<Rightarrow> string option" where
  "inferredType s =
     (case schemaType s of
        Some t \<Rightarrow> Some t
      | None \<Rightarrow>
          if properties s \<noteq> None
             \<or> (case additionalProperties s of None \<Rightarrow> False | Some (Flag b) \<Rightarrow> b | Some (Sub a) \<Rightarrow> True)
          then Some ''object'' else None)"

text \<open>\<^verbatim>\<open>Array.isArray(schema.items) ? schema.items[0] : schema.items\<close>.\<close>

definition itemSchemaOf :: "JsonSchema \<Rightarrow> JsonSchema option" where
  "itemSchemaOf s =
     (case items s of
        None \<Rightarrow> None
      | Some (OneItem x) \<Rightarrow> Some x
      | Some (ManyItems xs) \<Rightarrow> (case xs of [] \<Rightarrow> None | x # _ \<Rightarrow> Some x))"

text \<open>The fields \<^verbatim>\<open>normalizeSchemaNode\<close> assigns on every node without a union:
  \<^verbatim>\<open>type\<close>, \<^verbatim>\<open>nullable\<close> and \<^verbatim>\<open>enum\<close>, and the path pushed for an \<^verbatim>\<open>enum\<close> left
  empty.\<close>

definition declaredNullable :: "JsonSchema \<Rightarrow> bool" where
  "declaredNullable node =
     (case type node of Some (TypeNames ts) \<Rightarrow> ''null'' \<in> set ts | _ \<Rightarrow> False)"

definition normalizedType :: "JsonSchema \<Rightarrow> typeField option" where
  "normalizedType node =
     (case inferredType node of Some t \<Rightarrow> Some (TypeName t) | None \<Rightarrow> type node)"

definition normalizedEnum :: "JsonSchema \<Rightarrow> jv list option" where
  "normalizedEnum node = map_option (\<lambda>es. fst (normalizeEnumValues es)) (enum node)"

definition normalizedNullable :: "JsonSchema \<Rightarrow> bool option" where
  "normalizedNullable node =
     (if (case enum node of None \<Rightarrow> False | Some es \<Rightarrow> snd (normalizeEnumValues es))
      then Some True
      else if declaredNullable node then Some True else nullable node)"

definition enumPaths :: "JsonSchema \<Rightarrow> seg list \<Rightarrow> string list" where
  "enumPaths node path =
     (case normalizedEnum node of
        Some [] \<Rightarrow> [pathLabelOf path]
      | _ \<Rightarrow> [])"

text \<open>
  The three branches on the type. Each takes the results of the recursive calls the
  branch makes and returns the normalized node with the paths pushed, in the order of
  the pushes, deduplicated. Object: \<open>results\<close> are the results for the declared
  properties, \<open>addl\<close> the result for \<^verbatim>\<open>additionalProperties\<close> when that is a schema.
  The assignment \<^verbatim>\<open>normalizedProps[key] = result.schema\<close> with the key \<^verbatim>\<open>__proto__\<close>
  sets the prototype of \<^verbatim>\<open>normalizedProps\<close> and adds no property to it, so the
  normalized node has no property of that name; the paths of that child are pushed all
  the same.
  Array: \<open>item\<close> is the item schema with its result, \<open>None\<close> when there is no item
  schema. The last branch covers scalars and unclassified nodes.
\<close>

definition objectResult ::
  "JsonSchema \<Rightarrow> seg list \<Rightarrow> (string \<times> ConfigSchemaAnalysis) list
     \<Rightarrow> ConfigSchemaAnalysis option \<Rightarrow> ConfigSchemaAnalysis" where
  "objectResult node path results addl =
     (let pathLabel = pathLabelOf path;
          normalizedProps =
            concat (map (\<lambda>(key, result).
                      case schema result of
                        None \<Rightarrow> []
                      | Some n \<Rightarrow> if key = ''__proto__'' then [] else [(key, n)]) results);
          childPaths = concat (map (\<lambda>(key, result). unsupportedPaths result) results);
          normalizedAddl =
            (case additionalProperties node of
               Some (Sub a) \<Rightarrow>
                 (case addl of
                    Some result \<Rightarrow> Some (Sub (case schema result of None \<Rightarrow> a | Some n \<Rightarrow> n))
                  | None \<Rightarrow> Some (Sub a))
             | other \<Rightarrow> other);
          addlPaths =
            (case additionalProperties node of
               Some (Flag b) \<Rightarrow> if b then [pathLabel] else []
             | Some (Sub a) \<Rightarrow>
                 (case addl of
                    Some result \<Rightarrow> if unsupportedPaths result \<noteq> [] then [pathLabel] else []
                  | None \<Rightarrow> [])
             | None \<Rightarrow> [])
      in \<lparr> schema = Some (JsonSchema (normalizedType node) (title node) (description node)
                           (Some normalizedProps) (items node) normalizedAddl
                           (normalizedEnum node) (const node) (default node)
                           (anyOf node) (oneOf node) (allOf node) (normalizedNullable node)),
           unsupportedPaths = insertAll [] (enumPaths node path @ childPaths @ addlPaths) \<rparr>)"

definition arrayResult ::
  "JsonSchema \<Rightarrow> seg list \<Rightarrow> (JsonSchema \<times> ConfigSchemaAnalysis) option
     \<Rightarrow> ConfigSchemaAnalysis" where
  "arrayResult node path item =
     (let pathLabel = pathLabelOf path;
          normalizedItems =
            (case item of
               None \<Rightarrow> items node
             | Some (itemSchema, result) \<Rightarrow>
                 Some (OneItem (case schema result of None \<Rightarrow> itemSchema | Some n \<Rightarrow> n)));
          itemPaths =
            (case item of
               None \<Rightarrow> [pathLabel]
             | Some (itemSchema, result) \<Rightarrow>
                 if unsupportedPaths result \<noteq> [] then [pathLabel] else [])
      in \<lparr> schema = Some (JsonSchema (normalizedType node) (title node) (description node)
                           (properties node) normalizedItems (additionalProperties node)
                           (normalizedEnum node) (const node) (default node)
                           (anyOf node) (oneOf node) (allOf node) (normalizedNullable node)),
           unsupportedPaths = insertAll [] (enumPaths node path @ itemPaths) \<rparr>)"

definition leafResult :: "JsonSchema \<Rightarrow> seg list \<Rightarrow> ConfigSchemaAnalysis" where
  "leafResult node path =
     (let t = inferredType node;
          typePaths =
            (if t = Some ''string'' \<or> t = Some ''number'' \<or> t = Some ''integer''
                \<or> t = Some ''boolean'' then []
             else if normalizedEnum node = None then [pathLabelOf path] else [])
      in \<lparr> schema = Some (JsonSchema (normalizedType node) (title node) (description node)
                           (properties node) (items node) (additionalProperties node)
                           (normalizedEnum node) (const node) (default node)
                           (anyOf node) (oneOf node) (allOf node) (normalizedNullable node)),
           unsupportedPaths = insertAll [] (enumPaths node path @ typePaths) \<rparr>)"

text \<open>The node a union of literals collapses to:
  \<^verbatim>\<open>{ ...schema, enum: unique, nullable, anyOf: undefined, oneOf: undefined, allOf: undefined }\<close>;
  and \<^verbatim>\<open>result.schema.nullable = true\<close> on the result for a single non-literal
  variant.\<close>

definition enumNode :: "JsonSchema \<Rightarrow> jv list \<Rightarrow> bool \<Rightarrow> JsonSchema" where
  "enumNode node unique nullable' =
     JsonSchema (type node) (title node) (description node) (properties node) (items node)
       (additionalProperties node) (Some unique) (const node) (default node)
       None None None (Some nullable')"

definition markNullable :: "ConfigSchemaAnalysis \<Rightarrow> ConfigSchemaAnalysis" where
  "markNullable result =
     result \<lparr> schema := map_option (\<lambda>n. withNullable n (Some True)) (schema result) \<rparr>"

text \<open>The sub-schemas a call recurses into are smaller than the node.\<close>

lemma size_property: "properties s = Some ps \<Longrightarrow> (k, c) \<in> set ps \<Longrightarrow> size c < size s"
  by (cases s) (auto dest!: size_list_estimation'[where f="size_prod (\<lambda>x. 0) size" and y = "size c"] simp: less_Suc_eq_le)

lemma size_additional: "additionalProperties s = Some (Sub a) \<Longrightarrow> size a < size s"
  by (cases s) auto

lemma size_item: "itemSchemaOf s = Some x \<Longrightarrow> size x < size s"
  by (cases s) (auto simp: itemSchemaOf_def split: option.splits itemsField.splits list.splits)

lemma size_variant: "unionVariants s = Some vs \<Longrightarrow> v \<in> set vs \<Longrightarrow> size v < size s"
  by (cases s) (auto simp: unionVariants_def split: option.splits
      dest!: size_list_estimation'[where f=size and y = "size v"] simp: less_Suc_eq_le)

lemma classifyVariants_nonLiteral:
  "set (fst (snd (classifyVariants vs acc))) \<subseteq> set (fst (snd acc)) \<union> set vs"
  by (induction vs acc rule: classifyVariants.induct) (auto split: option.splits if_splits)

lemma classifyVariants_single:
  assumes "(values, [v], n) = classifyVariants vs ([], [], False)"
  shows "v \<in> set vs"
proof -
  have "set (fst (snd (classifyVariants vs ([], [], False)))) \<subseteq> set vs"
    using classifyVariants_nonLiteral[of vs "([], [], False)"] by simp
  then show ?thesis using assms[symmetric] by simp
qed

lemma size_property': "Some ps = properties s \<Longrightarrow> (k, c) \<in> set ps \<Longrightarrow> size c < size s"
  using size_property[of s ps k c] by simp

lemma size_variant_classified:
  "unionVariants s = Some vs \<Longrightarrow> (values, [v], n) = classifyVariants vs ([], [], False)
     \<Longrightarrow> Suc (2 * size v) < 2 * size s"
  using size_variant[of s vs v] classifyVariants_single[of "values" v n vs] by simp

text \<open>
  \<^verbatim>\<open>normalizeSchemaNode\<close> and \<^verbatim>\<open>normalizeUnion\<close>. \<^verbatim>\<open>normalizeUnion\<close> returns \<open>None\<close>
  for the source's \<^verbatim>\<open>null\<close>; the caller then passes the node through and records its
  label.
\<close>

function normalizeSchemaNode :: "JsonSchema \<Rightarrow> seg list \<Rightarrow> ConfigSchemaAnalysis"
  and normalizeUnion :: "JsonSchema \<Rightarrow> seg list \<Rightarrow> ConfigSchemaAnalysis option" where
  "normalizeSchemaNode node path =
     (if hasUnion node then
        (case normalizeUnion node path of
           Some union' \<Rightarrow> union'
         | None \<Rightarrow> \<lparr> schema = Some node, unsupportedPaths = [pathLabelOf path] \<rparr>)
      else if inferredType node = Some ''object'' then
        objectResult node path
          (map (\<lambda>(key, child). (key, normalizeSchemaNode child (path @ [Key key])))
             (case properties node of None \<Rightarrow> [] | Some props \<Rightarrow> props))
          (case additionalProperties node of
             Some (Sub a) \<Rightarrow> Some (normalizeSchemaNode a (path @ [Key ''*'']))
           | _ \<Rightarrow> None)
      else if inferredType node = Some ''array'' then
        arrayResult node path
          (case itemSchemaOf node of
             None \<Rightarrow> None
           | Some itemSchema \<Rightarrow>
               Some (itemSchema, normalizeSchemaNode itemSchema (path @ [Key ''*''])))
      else leafResult node path)"
| "normalizeUnion node path =
     (case unionVariants node of
        None \<Rightarrow> None
      | Some variants \<Rightarrow>
          (case classifyVariants variants ([], [], False) of
             (values, nonLiteral, nullable') \<Rightarrow>
               if values \<noteq> [] \<and> nonLiteral = [] then
                 Some \<lparr> schema = Some (enumNode node (pushUnique [] values) nullable'),
                        unsupportedPaths = [] \<rparr>
               else (case nonLiteral of
                       [variant] \<Rightarrow> Some (markNullable (normalizeSchemaNode variant path))
                     | _ \<Rightarrow> None)))"
  by pat_completeness auto
termination
  by (relation "measure (\<lambda>x. case x of Inl (n, p) \<Rightarrow> 2 * size n + 1
                                      | Inr (n, p) \<Rightarrow> 2 * size n)")
    (auto split: option.splits
      dest: size_property' size_additional size_item size_variant_classified)

declare normalizeSchemaNode.simps [simp del] normalizeUnion.simps [simp del]

text \<open>\<^verbatim>\<open>analyzeConfigSchema\<close>: \<open>None\<close> stands for a \<^verbatim>\<open>raw\<close> that is falsy or not an
  object.\<close>

definition analyzeConfigSchema :: "JsonSchema option \<Rightarrow> ConfigSchemaAnalysis" where
  "analyzeConfigSchema raw' =
     (case raw' of
        None \<Rightarrow> \<lparr> schema = None, unsupportedPaths = [''<root>''] \<rparr>
      | Some node \<Rightarrow> normalizeSchemaNode node [])"

section \<open>Notions used to state the properties\<close>

subsection \<open>Slots of a tree\<close>

text \<open>A scalar: a string, a number or a boolean.\<close>

fun isScalar :: "jv \<Rightarrow> bool" where
  "isScalar (JBool _) = True"
| "isScalar (JNum _) = True"
| "isScalar (JStr _) = True"
| "isScalar _ = False"

text \<open>
  The value a tree holds in the slot a path leads to, read the way the walk of
  \<^verbatim>\<open>setPathValue\<close> reads it (a numeric segment in an array, a string segment in an
  object or an array), without creating anything; \<open>None\<close> when the walk cannot get there.
\<close>

fun slotAt :: "jv \<Rightarrow> seg list \<Rightarrow> jv option" where
  "slotAt current [] = Some current"
| "slotAt current (Idx n # rest) =
     (case current of JArr xs ps \<Rightarrow> slotAt (getIdx xs n) rest | _ \<Rightarrow> None)"
| "slotAt current (Key k # rest) =
     (if isObjectLike current then slotAt (getProp current k) rest else None)"

subsection \<open>Fields of the wrong type\<close>






subsection \<open>Inputs of the controller's tests\<close>

text \<open>The snapshot of the test \<^verbatim>\<open>handles missing slack config without throwing\<close>, the
  snapshot of the test \<^verbatim>\<open>seeds from snapshot when form is null\<close>, and imports to run
  them with (a printer that prints every value as a pair of braces, a printer of large
  numbers that the examples never call, and the name of the error as its text).\<close>

definition snapshotWithoutSlack :: ConfigSnapshot where
  "snapshotWithoutSlack =
     \<lparr> config = JObj [(''telegram'', JObj []), (''discord'', JObj []),
                      (''signal'', JObj []), (''imessage'', JObj [])],
       raw = JStr ''{}'', valid = JBool True, issues = JArr [] [] \<rparr>"

definition snapshotWithGateway :: ConfigSnapshot where
  "snapshotWithGateway =
     \<lparr> config = JObj [(''telegram'', JObj [(''botToken'', JStr ''t'')]),
                      (''gateway'', JObj [(''mode'', JStr ''local'')])],
       raw = JStr ''{}'', valid = JBool True, issues = JArr [] [] \<rparr>"




definition printBraces :: "jv \<Rightarrow> string" where
  "printBraces v = ''{}''"

definition testImports :: Imports where
  "testImports =
     \<lparr> stringify = printBraces, largeNumberString = (\<lambda>n. []),
       errorString = (\<lambda>e. ''TypeError''),
       defaultDiscordActions = everyDiscordAction,
       defaultSlackActions = everySlackAction \<rparr>"

subsection \<open>Variants of a union\<close>

text \<open>
  A literal variant carries an \<^verbatim>\<open>enum\<close> array or a \<^verbatim>\<open>const\<close>; a null variant is a variant
  of type \<^verbatim>\<open>"null"\<close> that is not a literal; any other variant is non-literal. The
  literal values of a variant are the entries of its \<^verbatim>\<open>enum\<close>, or its \<^verbatim>\<open>const\<close> when it
  has no \<^verbatim>\<open>enum\<close> (the order in which \<^verbatim>\<open>normalizeUnion\<close> looks at the two).
\<close>

definition isLiteralVariant :: "JsonSchema \<Rightarrow> bool" where
  "isLiteralVariant v = (enum v \<noteq> None \<or> const v \<noteq> None)"

definition isNullVariant :: "JsonSchema \<Rightarrow> bool" where
  "isNullVariant v = (enum v = None \<and> const v = None \<and> schemaType v = Some ''null'')"

definition isNonLiteral :: "JsonSchema \<Rightarrow> bool" where
  "isNonLiteral v = (\<not> isLiteralVariant v \<and> \<not> isNullVariant v)"

definition literalsOf :: "JsonSchema \<Rightarrow> jv list" where
  "literalsOf v =
     (case enum v of Some es \<Rightarrow> es
      | None \<Rightarrow> (case const v of Some c \<Rightarrow> [c] | None \<Rightarrow> []))"

text \<open>No value of the list is identical (\<^verbatim>\<open>Object.is\<close>) to a later one.\<close>

fun noRepeats :: "jv list \<Rightarrow> bool" where
  "noRepeats [] = True"
| "noRepeats (x # xs) = (\<not> list_ex (objectIs x) xs \<and> noRepeats xs)"

text \<open>What one variant adds to \<^verbatim>\<open>values\<close> and to \<^verbatim>\<open>nullable\<close> in the loop of
  \<^verbatim>\<open>normalizeUnion\<close>.\<close>

definition variantValues :: "JsonSchema \<Rightarrow> jv list" where
  "variantValues v =
     (case enum v of Some es \<Rightarrow> fst (normalizeEnumValues es)
      | None \<Rightarrow> (case const v of Some c \<Rightarrow> if isNullish c then [] else [c] | None \<Rightarrow> []))"

definition variantNullable :: "JsonSchema \<Rightarrow> bool" where
  "variantNullable v =
     (case enum v of Some es \<Rightarrow> snd (normalizeEnumValues es)
      | None \<Rightarrow> (case const v of Some c \<Rightarrow> isNullish c | None \<Rightarrow> schemaType v = Some ''null''))"

subsection \<open>Schemas whose collapsed unions are accepted as they are\<close>

text \<open>
  The output of a run differs from its input in two places that a second run can see.
  A union that collapses leaves an \<^verbatim>\<open>enum\<close> node that keeps every other field of the
  union node (\<^verbatim>\<open>{...schema, enum, nullable}\<close>) and is normalized for the first time
  by the second run. And the child under a property named \<^verbatim>\<open>__proto__\<close> is not in the
  output, so the second run does not visit it.

  \<open>acceptedAgain node path\<close> holds when, along the nodes \<^verbatim>\<open>normalizeSchemaNode\<close>
  visits from \<open>node\<close> at \<open>path\<close> (the declared properties and the
  \<^verbatim>\<open>additionalProperties\<close> schema of an object, the item schema of an array, the single
  non-literal variant of a union), the normalizer reports no unsupported path for the
  \<^verbatim>\<open>enum\<close> node of any union that collapses, and none for the child under a property
  named \<^verbatim>\<open>__proto__\<close>.
\<close>

function acceptedAgain :: "JsonSchema \<Rightarrow> seg list \<Rightarrow> bool" where
  "acceptedAgain node path =
     (if hasUnion node then
        (case unionVariants node of
           None \<Rightarrow> True
         | Some variants \<Rightarrow>
             (case classifyVariants variants ([], [], False) of
                (values, nonLiteral, nullable') \<Rightarrow>
                  if values \<noteq> [] \<and> nonLiteral = [] then
                    unsupportedPaths
                      (normalizeSchemaNode (enumNode node (pushUnique [] values) nullable') path)
                      = []
                  else (case nonLiteral of
                          [variant] \<Rightarrow> acceptedAgain variant path
                        | _ \<Rightarrow> True)))
      else if inferredType node = Some ''object'' then
        list_all (\<lambda>(key, child).
                    if key = ''__proto__''
                    then unsupportedPaths (normalizeSchemaNode child (path @ [Key key])) = []
                    else acceptedAgain child (path @ [Key key]))
          (case properties node of None \<Rightarrow> [] | Some props \<Rightarrow> props)
        \<and> (case additionalProperties node of
              Some (Sub a) \<Rightarrow> acceptedAgain a (path @ [Key ''*''])
            | _ \<Rightarrow> True)
      else if inferredType node = Some ''array'' then
        (case itemSchemaOf node of
           None \<Rightarrow> True
         | Some itemSchema \<Rightarrow> acceptedAgain itemSchema (path @ [Key ''*'']))
      else True)"
  by pat_completeness auto
termination
  by (relation "measure (\<lambda>(node, path). size node)")
    (auto split: option.splits
      dest: size_property' size_additional size_item size_variant_classified)

declare acceptedAgain.simps [simp del]

subsection \<open>Schemas of the examples\<close>

text \<open>A node with one field set;
  a union of the literals \<^verbatim>\<open>"a"\<close>, \<^verbatim>\<open>"b"\<close>, \<^verbatim>\<open>"a"\<close> and a null variant; a union whose
  only variant is \<^verbatim>\<open>{const: null}\<close>; a union of the literal \<^verbatim>\<open>"a"\<close> and a number; a
  node of type \<^verbatim>\<open>"array"\<close>, and one of type \<^verbatim>\<open>"object"\<close>, that is also a union of the
  literal \<^verbatim>\<open>"a"\<close>; an object whose only property is named \<^verbatim>\<open>__proto__\<close> and has an
  empty schema; and an object with three properties: the property \<^verbatim>\<open>mixed\<close> of the form
  view's test (\<^verbatim>\<open>{anyOf: [{type: "string"}, {type: "number"}]}\<close>), the union of type
  \<^verbatim>\<open>"object"\<close>, and a string under the name \<^verbatim>\<open>__proto__\<close>.\<close>

definition ofType :: "string \<Rightarrow> JsonSchema" where
  "ofType t =
     JsonSchema (Some (TypeName t)) None None None None None None None None None None None None"

definition ofConst :: "jv \<Rightarrow> JsonSchema" where
  "ofConst c =
     JsonSchema None None None None None None None (Some c) None None None None None"

definition anyOfVariants :: "JsonSchema list \<Rightarrow> JsonSchema" where
  "anyOfVariants vs =
     JsonSchema None None None None None None None None None (Some vs) None None None"

definition literalUnion :: JsonSchema where
  "literalUnion =
     anyOfVariants [ofConst (JStr ''a''), ofConst (JStr ''b''), ofConst (JStr ''a''),
                    ofType ''null'']"

definition nullOnlyUnion :: JsonSchema where
  "nullOnlyUnion = anyOfVariants [ofConst JNull]"

definition literalAndNumber :: JsonSchema where
  "literalAndNumber = anyOfVariants [ofConst (JStr ''a''), ofType ''number'']"

definition arrayTypedUnion :: JsonSchema where
  "arrayTypedUnion =
     JsonSchema (Some (TypeName ''array'')) None None None None None None None None
       (Some [ofConst (JStr ''a'')]) None None None"

definition objectTypedUnion :: JsonSchema where
  "objectTypedUnion =
     JsonSchema (Some (TypeName ''object'')) None None None None None None None None
       (Some [ofConst (JStr ''a'')]) None None None"

definition protoSchema :: JsonSchema where
  "protoSchema =
     JsonSchema (Some (TypeName ''object'')) None None
       (Some [(''__proto__'',
               JsonSchema None None None None None None None None None None None None None)])
       None None None None None None None None None"

definition revisitedSchema :: JsonSchema where
  "revisitedSchema =
     JsonSchema (Some (TypeName ''object'')) None None
       (Some [(''mixed'', anyOfVariants [ofType ''string'', ofType ''number'']),
              (''mode'', objectTypedUnion),
              (''__proto__'', ofType ''string'')])
       None None None None None None None None None"

section \<open>Properties of the path mutator\<close>

text \<open>
  Claim C8. \<^verbatim>\<open>set\<close> applied to the empty mapping with the path \<^verbatim>\<open>["a","b",0]\<close> and the
  value \<^verbatim>\<open>"x"\<close> gives \<^verbatim>\<open>{a: {b: ["x"]}}\<close>: a mapping is created for \<^verbatim>\<open>a\<close> because the
  next segment is a string, a sequence for \<^verbatim>\<open>b\<close> because the next segment is a number.
  \<^verbatim>\<open>remove\<close> of the same path on that result gives \<^verbatim>\<open>{a: {b: []}}\<close>.
\<close>

theorem set_then_remove_example:
  "setPathValue (JObj []) [Key ''a'', Key ''b'', Idx 0] (JStr ''x'')
     = JObj [(''a'', JObj [(''b'', JArr [JStr ''x''] [])])]
   \<and> removePathValue (setPathValue (JObj []) [Key ''a'', Key ''b'', Idx 0] (JStr ''x''))
        [Key ''a'', Key ''b'', Idx 0]
     = JObj [(''a'', JObj [(''b'', JArr [] [])])]"
  by (simp add: orCreate_def lookupOwn_def getIdx_def setIdx_def splice1_def)

subsection \<open>Reading back what was written\<close>

lemma setPathValue_nonobject: "\<not> isObjectLike c \<Longrightarrow> setPathValue c p v = c"
  by (cases "(c, p, v)" rule: setPathValue.cases) (auto split: jv.splits)

lemma setPathValue_scalar: "isScalar c \<Longrightarrow> setPathValue c p v = c"
  by (rule setPathValue_nonobject) (cases c; simp)

lemma setIdx_getIdx: "\<not> isNullish (getIdx xs n) \<Longrightarrow> setIdx xs n (getIdx xs n) = xs"
  by (auto simp: setIdx_def getIdx_def split: if_splits)

lemma getIdx_setIdx: "getIdx (setIdx xs n x) n = x"
  by (auto simp: setIdx_def getIdx_def nth_append)

lemma assignOwn_lookupOwn:
  "\<not> isNullish (lookupOwn ps k) \<Longrightarrow> assignOwn ps k (lookupOwn ps k) = ps"
  by (induction ps) (auto simp: lookupOwn_def)

lemma lookupOwn_assignOwn: "lookupOwn (assignOwn ps k x) k = x"
  by (induction ps) (auto simp: lookupOwn_def)

lemma setProp_getProp: "\<not> isNullish (getProp c k) \<Longrightarrow> setProp c k (getProp c k) = c"
  by (cases c) (auto simp: setIdx_getIdx assignOwn_lookupOwn split: option.splits)

lemma getProp_setProp: "isObjectLike c \<Longrightarrow> getProp (setProp c k x) k = x"
  by (cases c) (auto simp: getIdx_setIdx lookupOwn_assignOwn split: option.splits)

lemma isObjectLike_setProp: "isObjectLike (setProp c k x) = isObjectLike c"
  by (cases c) (auto split: option.splits)

lemma slotAt_of_nullish: "isNullish c \<Longrightarrow> slotAt c p = Some d \<Longrightarrow> d = c \<and> p = []"
  by (cases p; cases c) (auto split: seg.splits elim: slotAt.elims)

lemma slotAt_start_occupied: "slotAt c p = Some d \<Longrightarrow> \<not> isNullish d \<Longrightarrow> \<not> isNullish c"
  using slotAt_of_nullish by blast

lemma setPathValue_Idx_step:
  "q \<noteq> [] \<Longrightarrow> setPathValue (JArr xs ps) (Idx n # q) v
     = JArr (setIdx xs n (setPathValue (orCreate (getIdx xs n) (hd q)) q v)) ps"
  by (cases q) auto

lemma setPathValue_Key_step:
  "q \<noteq> [] \<Longrightarrow> isObjectLike c \<Longrightarrow> setPathValue c (Key k # q) v
     = setProp c k (setPathValue (orCreate (getProp c k) (hd q)) q v)"
  by (cases q) auto

text \<open>When the walk reaches an occupied slot and the rest of the call changes nothing
  below it, the call changes nothing at all.\<close>

lemma setPathValue_fixed_below:
  "slotAt tree pre = Some c \<Longrightarrow> \<not> isNullish c \<Longrightarrow> rest \<noteq> [] \<Longrightarrow>
     setPathValue c rest v = c \<Longrightarrow> setPathValue tree (pre @ rest) v = tree"
proof (induction pre arbitrary: tree)
  case Nil
  then show ?case by simp
next
  case (Cons s pre)
  have q: "pre @ rest \<noteq> []" using Cons.prems(3) by simp
  show ?case
  proof (cases s)
    case (Idx n)
    with Cons.prems(1) obtain xs ps where t: "tree = JArr xs ps"
      and sl: "slotAt (getIdx xs n) pre = Some c"
      by (cases tree) auto
    have nn: "\<not> isNullish (getIdx xs n)"
      using slotAt_start_occupied[OF sl Cons.prems(2)] .
    have "setPathValue (getIdx xs n) (pre @ rest) v = getIdx xs n"
      using Cons.IH[OF sl Cons.prems(2) Cons.prems(3) Cons.prems(4)] .
    then show ?thesis
      using nn by (simp add: Idx t setPathValue_Idx_step[OF q] orCreate_def setIdx_getIdx
          del: setPathValue.simps)
  next
    case (Key k)
    with Cons.prems(1) have ol: "isObjectLike tree"
      and sl: "slotAt (getProp tree k) pre = Some c"
      by (auto split: if_splits)
    have nn: "\<not> isNullish (getProp tree k)"
      using slotAt_start_occupied[OF sl Cons.prems(2)] .
    have "setPathValue (getProp tree k) (pre @ rest) v = getProp tree k"
      using Cons.IH[OF sl Cons.prems(2) Cons.prems(3) Cons.prems(4)] .
    then show ?thesis
      using nn by (simp add: Key setPathValue_Key_step[OF q ol] orCreate_def setProp_getProp
          del: setPathValue.simps)
  qed
qed

text \<open>When the walk reaches an occupied slot, the slot afterwards holds what the rest of
  the call makes of the value that was there.\<close>

lemma setPathValue_continues_in_slot:
  "slotAt tree pre = Some c \<Longrightarrow> \<not> isNullish c \<Longrightarrow> rest \<noteq> [] \<Longrightarrow>
     slotAt (setPathValue tree (pre @ rest) v) pre = Some (setPathValue c rest v)"
proof (induction pre arbitrary: tree)
  case Nil
  then show ?case by simp
next
  case (Cons s pre)
  have q: "pre @ rest \<noteq> []" using Cons.prems(3) by simp
  show ?case
  proof (cases s)
    case (Idx n)
    with Cons.prems(1) obtain xs ps where t: "tree = JArr xs ps"
      and sl: "slotAt (getIdx xs n) pre = Some c"
      by (cases tree) auto
    have nn: "\<not> isNullish (getIdx xs n)"
      using slotAt_start_occupied[OF sl Cons.prems(2)] .
    show ?thesis
      using nn Cons.IH[OF sl Cons.prems(2) Cons.prems(3)]
      by (simp add: Idx t setPathValue_Idx_step[OF q] orCreate_def getIdx_setIdx
          del: setPathValue.simps)
  next
    case (Key k)
    with Cons.prems(1) have ol: "isObjectLike tree"
      and sl: "slotAt (getProp tree k) pre = Some c"
      by (auto split: if_splits)
    have nn: "\<not> isNullish (getProp tree k)"
      using slotAt_start_occupied[OF sl Cons.prems(2)] .
    show ?thesis
      using nn ol Cons.IH[OF sl Cons.prems(2) Cons.prems(3)]
      by (simp add: Key setPathValue_Key_step[OF q ol] orCreate_def getProp_setProp
          isObjectLike_setProp del: setPathValue.simps)
  qed
qed

subsection \<open>Writing into a container of the wrong kind\<close>

text \<open>
  What the guards of \<^verbatim>\<open>setPathValue\<close> do give: when the walk ends in an occupied slot
  that is not an array and the last segment is a number, or that is neither an object
  nor an array and the last segment is a string, the tree is returned as it was.
\<close>

lemma setPathValue_guarded_mismatch:
  assumes "slotAt tree pre = Some c" and "\<not> isNullish c"
    and "case k of Idx n \<Rightarrow> \<not> isArray c | Key s \<Rightarrow> \<not> isObjectLike c"
  shows "setPathValue tree (pre @ [k]) v = tree"
proof -
  have "setPathValue c [k] v = c"
    using assms(3) by (cases k; cases c) auto
  then show ?thesis
    using assms(1,2) by (simp add: setPathValue_fixed_below)
qed

text \<open>
  Claim C2 says that \<^verbatim>\<open>set\<close> leaves the tree unchanged whenever the container reached
  at the final segment is not a sequence and the final segment is an integer, or is not
  a mapping and the final segment is a string. The guard of the string case is
  \<^verbatim>\<open>typeof current === "object" && current != null\<close>, which an array passes: with the
  tree \<^verbatim>\<open>{a: ["y"]}\<close>, the path \<^verbatim>\<open>["a", "0"]\<close> and the value \<^verbatim>\<open>"x"\<close> the container
  reached is the array, the final segment is a string, and the call overwrites the
  element; with the tree \<^verbatim>\<open>{a: []}\<close> and the path \<^verbatim>\<open>["a", "k"]\<close> it gives the array a
  property \<^verbatim>\<open>k\<close>.
\<close>

theorem setPathValue_string_key_on_array:
  "slotAt (JObj [(''a'', JArr [JStr ''y''] [])]) [Key ''a''] = Some (JArr [JStr ''y''] [])
   \<and> setPathValue (JObj [(''a'', JArr [JStr ''y''] [])]) [Key ''a'', Key ''0''] (JStr ''x'')
       = JObj [(''a'', JArr [JStr ''x''] [])]
   \<and> setPathValue (JObj [(''a'', JArr [] [])]) [Key ''a'', Key ''k''] (JStr ''x'')
       = JObj [(''a'', JArr [] [(''k'', JStr ''x'')])]"
  by (simp add: orCreate_def lookupOwn_def getIdx_def setIdx_def arrayIndex_def digitVal_def)

text \<open>
  Claim C10. \<^verbatim>\<open>set\<close> creates an intermediate container only in a slot that holds
  \<^verbatim>\<open>null\<close> or \<^verbatim>\<open>undefined\<close>: when the walk reaches a slot that holds anything else
  and the path goes on, the slot afterwards holds what the rest of the call makes of the
  value that was there; and when that value is a scalar (a string, a number or a
  boolean), the whole call leaves the tree unchanged.
\<close>

theorem setPathValue_keeps_occupied_slots:
  assumes "slotAt tree pre = Some c" and "rest \<noteq> []"
  shows "(\<not> isNullish c \<longrightarrow>
            slotAt (setPathValue tree (pre @ rest) v) pre = Some (setPathValue c rest v))
         \<and> (isScalar c \<longrightarrow> setPathValue tree (pre @ rest) v = tree)"
proof (intro conjI impI)
  assume "\<not> isNullish c"
  then show "slotAt (setPathValue tree (pre @ rest) v) pre = Some (setPathValue c rest v)"
    using assms by (simp add: setPathValue_continues_in_slot)
next
  assume sc: "isScalar c"
  then have "\<not> isNullish c" by (cases c) auto
  then show "setPathValue tree (pre @ rest) v = tree"
    using assms sc by (simp add: setPathValue_fixed_below setPathValue_scalar)
qed

theorem setPathValue_keeps_occupied_slots_witness:
  "slotAt (JObj [(''a'', JStr ''s'')]) [Key ''a''] = Some (JStr ''s'')
   \<and> [Key ''b''] \<noteq> []
   \<and> slotAt (setPathValue (JObj [(''a'', JStr ''s'')]) [Key ''a'', Key ''b''] (JNum 1)) [Key ''a'']
       = Some (JStr ''s'')
   \<and> setPathValue (JObj [(''a'', JStr ''s'')]) [Key ''a'', Key ''b''] (JNum 1)
       = JObj [(''a'', JStr ''s'')]"
  using setPathValue_keeps_occupied_slots
          [of "JObj [(''a'', JStr ''s'')]" "[Key ''a'']" "JStr ''s''" "[Key ''b'']" "JNum 1"]
  by (simp add: lookupOwn_def)

section \<open>Properties of the configuration state\<close>

text \<open>The form value after \<^verbatim>\<open>applyConfigSnapshot\<close>, whether the call returns or raises:
  the configuration of the snapshot when the call returns and the form was not dirty,
  the form value of before otherwise.\<close>

lemma configForm_applyConfigSnapshot:
  "configForm (fst (applyConfigSnapshot env state snapshot))
     = (if snd (applyConfigSnapshot env state snapshot) = None \<and> \<not> configFormDirty state
        then cloneConfigObject (orElse (config snapshot) (JObj []))
        else configForm state)"
  by (cases "telegramProjection (largeNumberString env) (sectionOf snapshot ''telegram'')";
      cases "discordProjection (largeNumberString env) (defaultDiscordActions env)
               (sectionOf snapshot ''discord'')";
      cases "slackProjection (largeNumberString env) (defaultSlackActions env)
               (sectionOf snapshot ''slack'')";
      cases "signalProjection (largeNumberString env) (sectionOf snapshot ''signal'')";
      cases "imessageProjection (largeNumberString env) (sectionOf snapshot ''imessage'')")
     (simp_all add: applyConfigSnapshot_def Let_def)

text \<open>
  Claim C5. When the form value is \<^verbatim>\<open>null\<close>, \<^verbatim>\<open>updateConfigFormValue\<close> seeds the form
  from the configuration of the snapshot (from the empty mapping when the snapshot has
  none), applies the patch and sets the dirty flag; and in every state whose dirty flag
  is set, \<^verbatim>\<open>applyConfigSnapshot\<close> leaves the form value as it is, whether it returns or
  raises.
\<close>

theorem update_seeds_from_snapshot_and_dirty_form_is_kept:
  "(configForm state = JNull \<and> configSnapshot state = Some snapshot \<longrightarrow>
      configForm (updateConfigFormValue state path v)
        = setPathValue (orElse (config snapshot) (JObj [])) path v
      \<and> configFormDirty (updateConfigFormValue state path v))
   \<and> (configFormDirty state \<longrightarrow>
        configForm (fst (applyConfigSnapshot env state snapshot')) = configForm state)"
  by (simp add: updateConfigFormValue_def configForm_applyConfigSnapshot formSeed_def
      orElse_def cloneConfigObject_def Let_def)

theorem update_seeds_from_snapshot_and_dirty_form_is_kept_witness:
  "configForm (createState testImports \<lparr> configSnapshot := Some snapshotWithGateway \<rparr>) = JNull
   \<and> configForm (updateConfigFormValue
         (createState testImports \<lparr> configSnapshot := Some snapshotWithGateway \<rparr>)
         [Key ''gateway'', Key ''port''] (JNum 18789))
       = JObj [(''telegram'', JObj [(''botToken'', JStr ''t'')]),
               (''gateway'', JObj [(''mode'', JStr ''local''), (''port'', JNum 18789)])]
   \<and> configFormDirty (updateConfigFormValue
         (createState testImports \<lparr> configSnapshot := Some snapshotWithGateway \<rparr>)
         [Key ''gateway'', Key ''port''] (JNum 18789))
   \<and> configForm (fst (applyConfigSnapshot testImports
         (updateConfigFormValue
            (createState testImports \<lparr> configSnapshot := Some snapshotWithGateway \<rparr>)
            [Key ''gateway'', Key ''port''] (JNum 18789))
         snapshotWithoutSlack))
       = JObj [(''telegram'', JObj [(''botToken'', JStr ''t'')]),
               (''gateway'', JObj [(''mode'', JStr ''local''), (''port'', JNum 18789)])]"
  using update_seeds_from_snapshot_and_dirty_form_is_kept
          [where state = "createState testImports \<lparr> configSnapshot := Some snapshotWithGateway \<rparr>"
             and snapshot = snapshotWithGateway and path = "[Key ''gateway'', Key ''port'']"
             and v = "JNum 18789"]
        update_seeds_from_snapshot_and_dirty_form_is_kept
          [where state = "updateConfigFormValue
                 (createState testImports \<lparr> configSnapshot := Some snapshotWithGateway \<rparr>)
                 [Key ''gateway'', Key ''port''] (JNum 18789)"
             and env = testImports and snapshot' = snapshotWithoutSlack]
  by (simp add: createState_def snapshotWithGateway_def orElse_def orCreate_def lookupOwn_def)

subsection \<open>The Slack projection of a snapshot without usable Slack fields\<close>













text \<open>A list whose entries are strings, numbers, booleans, \<^verbatim>\<open>null\<close> or \<^verbatim>\<open>undefined\<close>
  is converted without an error.\<close>

lemma runAll_values: "list_all (\<lambda>r. \<not> isl r) rs \<Longrightarrow> \<not> isl (runAll rs)"
  by (induction rs rule: runAll.induct) (auto split: sum.splits)

lemma jsString_of_scalar: "\<not> isObjectLike v \<Longrightarrow> \<not> isl (jsString largeNumber v)"
  by (cases v) auto

lemma toList_of_scalars:
  assumes "list_all (\<lambda>v. \<not> isObjectLike v) xs"
  shows "\<not> isl (toList largeNumber (JArr xs []))"
proof -
  have "\<not> isl (jsString largeNumber (orElse v (JStr [])))" if "v \<in> set xs" for v
  proof -
    have "\<not> isObjectLike (orElse v (JStr []))"
      using assms that by (cases v) (auto simp: list_all_iff orElse_def)
    then show ?thesis by (rule jsString_of_scalar)
  qed
  then have "list_all (\<lambda>r. \<not> isl r) (map (\<lambda>v. jsString largeNumber (orElse v (JStr []))) xs)"
    by (simp add: list_all_iff)
  then have "\<not> isl (runAll (map (\<lambda>v. jsString largeNumber (orElse v (JStr []))) xs))"
    by (rule runAll_values)
  then show ?thesis
    by (cases "runAll (map (\<lambda>v. jsString largeNumber (orElse v (JStr []))) xs)")
       (simp_all add: hasOwn_def)
qed







subsection \<open>Saving\<close>

text \<open>
  Claim C9. In form mode with a form value of \<^verbatim>\<open>null\<close>, \<^verbatim>\<open>saveConfig\<close> sends the raw
  text \<^verbatim>\<open>configRaw\<close>; the text sent differs from \<^verbatim>\<open>configRaw\<close> only in form mode with a
  form value that is not \<^verbatim>\<open>null\<close>.
\<close>

theorem saveConfig_sends_raw_text_without_form:
  "(client state \<noteq> None \<and> connected state \<and> configFormMode state = FormMode
      \<and> configForm state = JNull \<longrightarrow>
      snd (saveConfig env state)
        = Some (Request ''config.set'' (JObj [(''raw'', JStr (configRaw state))])))
   \<and> (saveRaw env state \<noteq> configRaw state \<longrightarrow>
        configFormMode state = FormMode \<and> configForm state \<noteq> JNull)"
  by (auto simp add: saveConfig_def saveRaw_def Let_def)

theorem saveConfig_sends_raw_text_without_form_witness:
  "configForm (createState testImports
       \<lparr> client := Some GatewayBrowserClient, connected := True, configRaw := ''raw'' \<rparr>) = JNull
   \<and> snd (saveConfig testImports (createState testImports
       \<lparr> client := Some GatewayBrowserClient, connected := True, configRaw := ''raw'' \<rparr>))
       = Some (Request ''config.set'' (JObj [(''raw'', JStr ''raw'')]))
   \<and> saveRaw testImports (createState testImports \<lparr> configForm := JObj [] \<rparr>)
       \<noteq> configRaw (createState testImports \<lparr> configForm := JObj [] \<rparr>)
   \<and> configForm (createState testImports \<lparr> configForm := JObj [] \<rparr>) \<noteq> JNull"
  using saveConfig_sends_raw_text_without_form
          [where state = "createState testImports
                 \<lparr> client := Some GatewayBrowserClient, connected := True, configRaw := ''raw'' \<rparr>"
             and env = testImports]
        saveConfig_sends_raw_text_without_form
          [where state = "createState testImports \<lparr> configForm := JObj [] \<rparr>"
             and env = testImports]
  by (simp add: createState_def saveRaw_def testImports_def printBraces_def trimEnd_def
      isSpace_def)

text \<open>The schema request is guarded by its flag: a call made while a schema request is
  in flight sends nothing.\<close>

lemma loadConfigSchema_dropped_while_loading:
  "configSchemaLoading state \<Longrightarrow> loadConfigSchema state = (state, None)"
  by (simp add: loadConfigSchema_def)

text \<open>
  Claim C1 says that a call of \<^verbatim>\<open>save\<close> made while a save is in flight sends nothing.
  \<^verbatim>\<open>saveConfig\<close> sets \<^verbatim>\<open>configSaving\<close> and clears it when it is done, but never tests
  it: with a client and a connection, a call made in a state whose \<^verbatim>\<open>configSaving\<close> is
  set sends its \<^verbatim>\<open>config.set\<close> request like any other call.
\<close>

theorem saveConfig_sends_while_saving:
  "client state \<noteq> None \<Longrightarrow> connected state \<Longrightarrow> configSaving state \<Longrightarrow>
     snd (saveConfig env state)
       = Some (Request ''config.set'' (JObj [(''raw'', JStr (saveRaw env state))]))"
  by (simp add: saveConfig_def saveRaw_def Let_def)

theorem saveConfig_sends_while_saving_witness:
  "configSaving (fst (saveConfig testImports (createState testImports
       \<lparr> client := Some GatewayBrowserClient, connected := True, configRaw := ''raw'' \<rparr>)))
   \<and> snd (saveConfig testImports (createState testImports
       \<lparr> client := Some GatewayBrowserClient, connected := True, configRaw := ''raw'' \<rparr>))
       = Some (Request ''config.set'' (JObj [(''raw'', JStr ''raw'')]))
   \<and> snd (saveConfig testImports
            (fst (saveConfig testImports (createState testImports
               \<lparr> client := Some GatewayBrowserClient, connected := True,
                 configRaw := ''raw'' \<rparr>))))
       = Some (Request ''config.set'' (JObj [(''raw'', JStr ''raw'')]))"
  using saveConfig_sends_while_saving
          [where state = "fst (saveConfig testImports (createState testImports
                 \<lparr> client := Some GatewayBrowserClient, connected := True,
                   configRaw := ''raw'' \<rparr>))"
             and env = testImports]
  by (simp add: saveConfig_def saveRaw_def createState_def Let_def)

section \<open>Properties of the schema normalizer\<close>

subsection \<open>The loop over the variants\<close>

lemma classifyVariants_eq:
  "classifyVariants vs (vals, nl, n)
     = (vals @ concat (map variantValues vs), nl @ filter isNonLiteral vs,
        n \<or> list_ex variantNullable vs)"
  by (induction vs arbitrary: vals nl n)
     (auto simp: variantValues_def variantNullable_def isNonLiteral_def isLiteralVariant_def
        isNullVariant_def split: option.splits)

lemma objectIs_eq: "objectIs a b \<Longrightarrow> a = b"
  by (cases a) auto

lemma set_pushUnique: "set (pushUnique acc xs) = set acc \<union> set xs"
  by (induction xs arbitrary: acc) (auto simp: list_ex_iff dest: objectIs_eq)

lemma objectIs_sym: "objectIs a b = objectIs b a"
  by (cases a; cases b) auto

lemma noRepeats_snoc:
  "noRepeats (xs @ [v]) = (noRepeats xs \<and> \<not> list_ex (\<lambda>e. objectIs e v) xs)"
  by (induction xs) (auto simp: list_ex_iff)

lemma noRepeats_pushUnique: "noRepeats acc \<Longrightarrow> noRepeats (pushUnique acc xs)"
  by (induction xs arbitrary: acc) (auto simp: noRepeats_snoc)

lemma noRepeats_prefix: "noRepeats (xs @ ys) \<Longrightarrow> noRepeats xs"
  by (induction xs) (auto simp: list_ex_iff)

lemma pushUnique_noRepeats_id: "noRepeats (acc @ xs) \<Longrightarrow> pushUnique acc xs = acc @ xs"
proof (induction xs arbitrary: acc)
  case Nil
  then show ?case by simp
next
  case (Cons x xs)
  have nr: "noRepeats ((acc @ [x]) @ xs)" using Cons.prems by simp
  have "noRepeats (acc @ [x])"
    using nr noRepeats_prefix by blast
  then have "\<not> list_ex (\<lambda>e. objectIs e x) acc" by (simp add: noRepeats_snoc)
  then show ?case using Cons.IH[OF nr] by simp
qed

lemma length_filter_eq_iff: "(length (filter P xs) = length xs) = (\<forall>x\<in>set xs. P x)"
proof -
  have "(length (filter P xs) = length xs) = (length (filter (\<lambda>x. \<not> P x) xs) = 0)"
    using sum_length_filter_compl[of P xs] by arith
  then show ?thesis by (simp add: filter_empty_conv)
qed

lemma set_normalizeEnumValues:
  "set (fst (normalizeEnumValues es)) = {x \<in> set es. \<not> isNullish x}"
  by (auto simp: normalizeEnumValues_def Let_def set_pushUnique)

lemma snd_normalizeEnumValues:
  "snd (normalizeEnumValues es) = (\<exists>x\<in>set es. isNullish x)"
  by (auto simp: normalizeEnumValues_def Let_def length_filter_eq_iff)

lemma noRepeats_normalizeEnumValues: "noRepeats (fst (normalizeEnumValues es))"
  by (simp add: normalizeEnumValues_def Let_def noRepeats_pushUnique)

lemma set_variantValues: "set (variantValues v) = {x \<in> set (literalsOf v). \<not> isNullish x}"
  by (auto simp: variantValues_def literalsOf_def set_normalizeEnumValues split: option.splits)

lemma variantNullable_iff:
  "variantNullable v = (isNullVariant v \<or> (\<exists>x\<in>set (literalsOf v). isNullish x))"
  by (auto simp: variantNullable_def literalsOf_def isNullVariant_def snd_normalizeEnumValues
      split: option.splits)

lemma unionVariants_hasUnion: "unionVariants node = Some vs \<Longrightarrow> hasUnion node"
  by (auto simp: unionVariants_def hasUnion_def split: option.splits)

lemma hasUnion_unionVariants: "hasUnion node \<Longrightarrow> \<exists>vs. unionVariants node = Some vs"
  by (auto simp: unionVariants_def hasUnion_def split: option.splits)

text \<open>A union node with two or more non-literal variants (whatever literal or null
  variants stand beside them) fails to normalize: the node is passed through as it is
  and the unsupported paths of the result are the label of its path, alone.\<close>

lemma union_with_several_non_literals_fails:
  assumes "unionVariants node = Some variants"
    and "2 \<le> length (filter isNonLiteral variants)"
  shows "normalizeSchemaNode node path
           = \<lparr> schema = Some node, unsupportedPaths = [pathLabelOf path] \<rparr>"
proof -
  obtain a b rest where nl: "filter isNonLiteral variants = a # b # rest"
  proof (cases "filter isNonLiteral variants")
    case Nil
    then show ?thesis using assms(2) by simp
  next
    case (Cons a as)
    then show ?thesis using assms(2) that by (cases as) auto
  qed
  have "normalizeUnion node path = None"
    by (simp add: normalizeUnion.simps assms(1) classifyVariants_eq nl)
  then show ?thesis
    by (simp add: normalizeSchemaNode.simps[of node] unionVariants_hasUnion[OF assms(1)])
qed

lemma isNonLiteral_ofType: "t \<noteq> ''null'' \<Longrightarrow> isNonLiteral (ofType t)"
  by (simp add: isNonLiteral_def isLiteralVariant_def isNullVariant_def ofType_def
      schemaType_def)

text \<open>A union with exactly one non-literal variant is reduced to that variant, marked
  nullable, whatever literal and null variants stand beside it.\<close>

lemma union_with_one_non_literal_reduces:
  assumes "unionVariants node = Some variants"
    and "filter isNonLiteral variants = [variant]"
  shows "normalizeSchemaNode node path = markNullable (normalizeSchemaNode variant path)"
proof -
  have "normalizeUnion node path = Some (markNullable (normalizeSchemaNode variant path))"
    by (simp add: normalizeUnion.simps assms classifyVariants_eq)
  then show ?thesis
    by (simp add: normalizeSchemaNode.simps[of node] unionVariants_hasUnion[OF assms(1)])
qed

text \<open>\<^verbatim>\<open>normalizeUnion\<close> gives up exactly when there are two or more non-literal
  variants, or none and no literal value other than \<^verbatim>\<open>null\<close>.\<close>

lemma normalizeUnion_gives_up:
  assumes "unionVariants node = Some variants"
  shows "(normalizeUnion node path = None)
           = (2 \<le> length (filter isNonLiteral variants)
              \<or> (filter isNonLiteral variants = []
                  \<and> list_all (\<lambda>v. list_all isNullish (literalsOf v)) variants))"
proof -
  have "set (concat (map variantValues variants)) = {}
          = list_all (\<lambda>v. list_all isNullish (literalsOf v)) variants"
    by (auto simp: set_variantValues list_all_iff)
  then have vals: "(concat (map variantValues variants) = [])
          = list_all (\<lambda>v. list_all isNullish (literalsOf v)) variants"
    by (metis set_empty)
  show ?thesis
  proof (cases "filter isNonLiteral variants")
    case Nil
    then show ?thesis
      using vals by (simp add: normalizeUnion.simps assms classifyVariants_eq)
  next
    case (Cons a as)
    then show ?thesis
      by (cases as) (simp_all add: normalizeUnion.simps assms classifyVariants_eq)
  qed
qed

text \<open>
  Claim C4 says that a union fails to normalize when it has two or more non-literal
  variants, or is a mix of literal and non-literal variants that cannot be reduced to a
  single enum or a single nullable sub-schema. The union of the literal \<^verbatim>\<open>"a"\<close> and a
  number is a mix of a literal and a non-literal variant, and neither an enum nor a
  nullable number admits both \<^verbatim>\<open>"a"\<close> and the numbers. \<^verbatim>\<open>normalizeUnion\<close> tests
  \<^verbatim>\<open>nonLiteral.length === 1\<close> and nothing else: it returns the number, marked nullable,
  drops the literal and marks no path.
\<close>

theorem mixed_union_reduced_to_non_literal:
  "unionVariants literalAndNumber = Some [ofConst (JStr ''a''), ofType ''number'']
   \<and> isLiteralVariant (ofConst (JStr ''a''))
   \<and> isNonLiteral (ofType ''number'')
   \<and> normalizeSchemaNode literalAndNumber []
       = \<lparr> schema = Some (withNullable (ofType ''number'') (Some True)),
           unsupportedPaths = [] \<rparr>"
  by (simp add: literalAndNumber_def anyOfVariants_def ofConst_def ofType_def unionVariants_def
      isLiteralVariant_def isNonLiteral_def isNullVariant_def normalizeSchemaNode.simps
      normalizeUnion.simps hasUnion_def schemaType_def inferredType_def leafResult_def
      enumPaths_def normalizedEnum_def normalizedType_def normalizedNullable_def
      declaredNullable_def markNullable_def withNullable_def)

text \<open>
  Claim C4, amended. For every union node: with two or more non-literal variants,
  whatever literal or null variants stand beside them, normalization fails for the
  node, which is passed through as it is with the label of its path as the only
  unsupported path; with exactly one non-literal variant, whatever literal or null
  variants stand beside it, the result is the normalization of that variant, marked
  nullable, and the literal values are dropped; and \<^verbatim>\<open>normalizeUnion\<close> gives up only
  with two or more non-literal variants, or with none and no literal value other than
  \<^verbatim>\<open>null\<close>.
\<close>

theorem union_fails_with_several_non_literals_only:
  assumes "unionVariants node = Some variants"
  shows "(2 \<le> length (filter isNonLiteral variants) \<longrightarrow>
            normalizeSchemaNode node path
              = \<lparr> schema = Some node, unsupportedPaths = [pathLabelOf path] \<rparr>)
         \<and> (\<forall>variant. filter isNonLiteral variants = [variant] \<longrightarrow>
               normalizeSchemaNode node path
                 = markNullable (normalizeSchemaNode variant path))
         \<and> (normalizeUnion node path = None)
             = (2 \<le> length (filter isNonLiteral variants)
                \<or> (filter isNonLiteral variants = []
                    \<and> list_all (\<lambda>v. list_all isNullish (literalsOf v)) variants))"
  using union_with_several_non_literals_fails[OF assms]
    union_with_one_non_literal_reduces[OF assms] normalizeUnion_gives_up[OF assms]
  by blast

theorem union_fails_with_several_non_literals_only_witness:
  "unionVariants (anyOfVariants [ofType ''string'', ofType ''number''])
     = Some [ofType ''string'', ofType ''number'']
   \<and> 2 \<le> length (filter isNonLiteral [ofType ''string'', ofType ''number''])
   \<and> normalizeSchemaNode (anyOfVariants [ofType ''string'', ofType ''number'']) [Key ''mixed'']
       = \<lparr> schema = Some (anyOfVariants [ofType ''string'', ofType ''number'']),
           unsupportedPaths = [''mixed''] \<rparr>
   \<and> normalizeUnion (anyOfVariants [ofType ''string'', ofType ''number'']) [Key ''mixed'']
       = None
   \<and> unionVariants literalAndNumber = Some [ofConst (JStr ''a''), ofType ''number'']
   \<and> filter isNonLiteral [ofConst (JStr ''a''), ofType ''number''] = [ofType ''number'']
   \<and> normalizeSchemaNode literalAndNumber []
       = markNullable (normalizeSchemaNode (ofType ''number'') [])
   \<and> normalizeUnion literalAndNumber [] \<noteq> None"
proof -
  have uv1: "unionVariants (anyOfVariants [ofType ''string'', ofType ''number''])
               = Some [ofType ''string'', ofType ''number'']"
    by (simp add: unionVariants_def anyOfVariants_def)
  have nl1: "filter isNonLiteral [ofType ''string'', ofType ''number'']
               = [ofType ''string'', ofType ''number'']"
    by (simp add: isNonLiteral_ofType)
  have uv2: "unionVariants literalAndNumber = Some [ofConst (JStr ''a''), ofType ''number'']"
    by (simp add: literalAndNumber_def unionVariants_def anyOfVariants_def)
  have nl2: "filter isNonLiteral [ofConst (JStr ''a''), ofType ''number''] = [ofType ''number'']"
    by (simp add: isNonLiteral_ofType) (simp add: isNonLiteral_def isLiteralVariant_def ofConst_def)
  have several:
    "normalizeSchemaNode (anyOfVariants [ofType ''string'', ofType ''number'']) [Key ''mixed'']
       = \<lparr> schema = Some (anyOfVariants [ofType ''string'', ofType ''number'']),
           unsupportedPaths = [''mixed''] \<rparr>
     \<and> normalizeUnion (anyOfVariants [ofType ''string'', ofType ''number'']) [Key ''mixed'']
         = None"
    using union_fails_with_several_non_literals_only[OF uv1, of "[Key ''mixed'']"]
    unfolding nl1 by (simp add: pathLabelOf_def pathKey_def)
  have one:
    "normalizeSchemaNode literalAndNumber []
       = markNullable (normalizeSchemaNode (ofType ''number'') [])
     \<and> normalizeUnion literalAndNumber [] \<noteq> None"
    using union_fails_with_several_non_literals_only[OF uv2, of "[]"]
    unfolding nl2 by simp
  show ?thesis
    using several one uv1 uv2 nl1 nl2 by simp
qed

text \<open>
  Claim C3 says that every union whose variants are all literals, optionally with a null
  variant, collapses to an \<^verbatim>\<open>enum\<close> node and is never marked unsupported. The collapse
  is guarded by \<^verbatim>\<open>values.length > 0\<close>: the union whose only variant is
  \<^verbatim>\<open>{const: null}\<close> has no value left, is passed through and is marked unsupported.
\<close>

theorem null_only_union_unsupported:
  "unionVariants nullOnlyUnion = Some [ofConst JNull]
   \<and> isLiteralVariant (ofConst JNull)
   \<and> normalizeSchemaNode nullOnlyUnion []
       = \<lparr> schema = Some nullOnlyUnion, unsupportedPaths = [''<root>''] \<rparr>"
  by (simp add: nullOnlyUnion_def anyOfVariants_def ofConst_def unionVariants_def
      isLiteralVariant_def normalizeSchemaNode.simps normalizeUnion.simps hasUnion_def
      pathLabelOf_def pathKey_def)

text \<open>
  Claim C3, amended. For every union node whose variants are all literals or null
  variants and at least one of whose literal values is not \<^verbatim>\<open>null\<close>: the result is the
  node with its union removed and an \<^verbatim>\<open>enum\<close> whose values are exactly the literal
  values that are not \<^verbatim>\<open>null\<close> or \<^verbatim>\<open>undefined\<close>, no two of them identical;
  \<^verbatim>\<open>nullable\<close> is true exactly when there is a null variant or a \<^verbatim>\<open>null\<close> literal; and
  no path is marked unsupported.
\<close>

theorem literal_union_collapses_to_enum:
  assumes "unionVariants node = Some variants"
    and "\<forall>v\<in>set variants. isLiteralVariant v \<or> isNullVariant v"
    and "\<exists>v\<in>set variants. \<exists>x\<in>set (literalsOf v). \<not> isNullish x"
  shows "\<exists>unique.
           normalizeSchemaNode node path
             = \<lparr> schema = Some (enumNode node unique
                    (\<exists>v\<in>set variants. isNullVariant v \<or> (\<exists>x\<in>set (literalsOf v). isNullish x))),
                 unsupportedPaths = [] \<rparr>
           \<and> set unique = {x \<in> (\<Union>v\<in>set variants. set (literalsOf v)). \<not> isNullish x}
           \<and> noRepeats unique"
proof -
  let ?vals = "concat (map variantValues variants)"
  let ?null = "\<exists>v\<in>set variants. isNullVariant v \<or> (\<exists>x\<in>set (literalsOf v). isNullish x)"
  have nl: "filter isNonLiteral variants = []"
    using assms(2) by (auto simp: isNonLiteral_def filter_empty_conv)
  have vs: "set ?vals = {x \<in> (\<Union>v\<in>set variants. set (literalsOf v)). \<not> isNullish x}"
    by (auto simp: set_variantValues)
  have "set ?vals \<noteq> {}"
    using assms(3) unfolding vs by blast
  then have ne: "?vals \<noteq> []" by (metis set_empty)
  have nu: "list_ex variantNullable variants = ?null"
    by (simp add: list_ex_iff variantNullable_iff)
  have "normalizeUnion node path
          = Some \<lparr> schema = Some (enumNode node (pushUnique [] ?vals) ?null),
                   unsupportedPaths = [] \<rparr>"
    using ne by (simp add: normalizeUnion.simps assms(1) classifyVariants_eq nl nu)
  then have "normalizeSchemaNode node path
          = \<lparr> schema = Some (enumNode node (pushUnique [] ?vals) ?null),
              unsupportedPaths = [] \<rparr>"
    by (simp add: normalizeSchemaNode.simps[of node] unionVariants_hasUnion[OF assms(1)])
  moreover have "set (pushUnique [] ?vals)
       = {x \<in> (\<Union>v\<in>set variants. set (literalsOf v)). \<not> isNullish x}"
    using vs by (simp add: set_pushUnique)
  moreover have "noRepeats (pushUnique [] ?vals)"
    by (simp add: noRepeats_pushUnique)
  ultimately show ?thesis by blast
qed

theorem literal_union_collapses_to_enum_witness:
  "unionVariants literalUnion
     = Some [ofConst (JStr ''a''), ofConst (JStr ''b''), ofConst (JStr ''a''), ofType ''null'']
   \<and> list_all (\<lambda>v. isLiteralVariant v \<or> isNullVariant v)
        [ofConst (JStr ''a''), ofConst (JStr ''b''), ofConst (JStr ''a''), ofType ''null'']
   \<and> (\<exists>unique.
         normalizeSchemaNode literalUnion []
           = \<lparr> schema = Some (enumNode literalUnion unique True), unsupportedPaths = [] \<rparr>
         \<and> set unique = {JStr ''a'', JStr ''b''}
         \<and> noRepeats unique)"
proof -
  let ?vs = "[ofConst (JStr ''a''), ofConst (JStr ''b''), ofConst (JStr ''a''), ofType ''null'']"
  have uv: "unionVariants literalUnion = Some ?vs"
    by (simp add: literalUnion_def anyOfVariants_def unionVariants_def)
  have lit: "\<forall>v\<in>set ?vs. isLiteralVariant v \<or> isNullVariant v"
    by (simp add: isLiteralVariant_def isNullVariant_def ofConst_def ofType_def schemaType_def)
  have val: "\<exists>v\<in>set ?vs. \<exists>x\<in>set (literalsOf v). \<not> isNullish x"
    by (simp add: literalsOf_def ofConst_def)
  have nul: "(\<exists>v\<in>set ?vs. isNullVariant v \<or> (\<exists>x\<in>set (literalsOf v). isNullish x)) = True"
    by (simp add: isNullVariant_def literalsOf_def ofConst_def ofType_def schemaType_def)
  have st: "{x \<in> (\<Union>v\<in>set ?vs. set (literalsOf v)). \<not> isNullish x} = {JStr ''a'', JStr ''b''}"
    by (auto simp: literalsOf_def ofConst_def ofType_def)
  show ?thesis
    using literal_union_collapses_to_enum[OF uv lit val, of "[]"] uv lit
    unfolding nul st by (simp add: list_all_iff)
qed

subsection \<open>Normalizing a normalized schema\<close>

lemma withNullable_sel [simp]:
  "type (withNullable n x) = type n"
  "properties (withNullable n x) = properties n"
  "items (withNullable n x) = items n"
  "additionalProperties (withNullable n x) = additionalProperties n"
  "enum (withNullable n x) = enum n"
  "const (withNullable n x) = const n"
  "anyOf (withNullable n x) = anyOf n"
  "oneOf (withNullable n x) = oneOf n"
  "allOf (withNullable n x) = allOf n"
  by (simp_all add: withNullable_def)

lemma schemaType_withNullable [simp]: "schemaType (withNullable n x) = schemaType n"
  by (simp add: schemaType_def)

lemma withNullable_derived [simp]:
  "hasUnion (withNullable n x) = hasUnion n"
  "unionVariants (withNullable n x) = unionVariants n"
  "inferredType (withNullable n x) = inferredType n"
  "itemSchemaOf (withNullable n x) = itemSchemaOf n"
  "normalizedEnum (withNullable n x) = normalizedEnum n"
  "enumPaths (withNullable n x) path = enumPaths n path"
  by (auto simp: hasUnion_def unionVariants_def inferredType_def
      itemSchemaOf_def normalizedEnum_def enumPaths_def split: option.splits)

lemma unsupportedPaths_markNullable [simp]:
  "unsupportedPaths (markNullable r) = unsupportedPaths r"
  by (simp add: markNullable_def)

lemma unsupportedPaths_normalizeUnion_withNullable:
  "map_option unsupportedPaths (normalizeUnion (withNullable n x) path)
     = map_option unsupportedPaths (normalizeUnion n path)"
  by (simp add: normalizeUnion.simps split: option.splits prod.splits list.splits)

lemma nullable_irrelevant:
  "unsupportedPaths (normalizeSchemaNode (withNullable n x) path)
     = unsupportedPaths (normalizeSchemaNode n path)"
proof (cases "hasUnion n")
  case True
  show ?thesis
    using unsupportedPaths_normalizeUnion_withNullable[of n x path] True
    by (cases "normalizeUnion n path"; cases "normalizeUnion (withNullable n x) path")
       (simp_all add: normalizeSchemaNode.simps[of n]
          normalizeSchemaNode.simps[of "withNullable n x"])
next
  case False
  then show ?thesis
    by (simp add: normalizeSchemaNode.simps[of n] normalizeSchemaNode.simps[of "withNullable n x"]
        objectResult_def arrayResult_def leafResult_def Let_def)
qed

lemma schema_normalizeSchemaNode: "\<exists>n. schema (normalizeSchemaNode node path) = Some n"
proof (induction node arbitrary: path rule: measure_induct_rule[where f=size])
  case (less node)
  show ?case
  proof (cases "hasUnion node")
    case True
    then obtain variants where uv: "unionVariants node = Some variants"
      using hasUnion_unionVariants by blast
    show ?thesis
    proof (cases "filter isNonLiteral variants")
      case Nil
      then show ?thesis
        by (simp add: normalizeSchemaNode.simps[of node] True normalizeUnion.simps uv
            classifyVariants_eq)
    next
      case (Cons v rest)
      then have "v \<in> set (filter isNonLiteral variants)" by simp
      then have "v \<in> set variants" by simp
      then have "size v < size node" using size_variant[OF uv] by simp
      then obtain n where "schema (normalizeSchemaNode v path) = Some n"
        using less.IH by blast
      then show ?thesis
        by (cases rest)
          (simp_all add: normalizeSchemaNode.simps[of node] True normalizeUnion.simps uv
            classifyVariants_eq Cons markNullable_def)
    qed
  next
    case False
    then show ?thesis
      by (simp add: normalizeSchemaNode.simps[of node] objectResult_def arrayResult_def
          leafResult_def Let_def)
  qed
qed


lemma normalizeEnumValues_idem:
  "fst (normalizeEnumValues (fst (normalizeEnumValues es))) = fst (normalizeEnumValues es)"
proof -
  let ?ys = "fst (normalizeEnumValues es)"
  have "filter (\<lambda>v. \<not> isNullish v) ?ys = ?ys"
    by (simp add: filter_id_conv set_normalizeEnumValues)
  moreover have "pushUnique [] ?ys = ?ys"
    using pushUnique_noRepeats_id[of "[]" ?ys] noRepeats_normalizeEnumValues by simp
  ultimately show ?thesis
    by (simp add: normalizeEnumValues_def[of ?ys] Let_def)
qed

lemma normalizedEnum_again:
  "enum r = normalizedEnum node \<Longrightarrow> normalizedEnum r = normalizedEnum node"
  by (cases "enum node") (simp_all add: normalizedEnum_def normalizeEnumValues_idem)

lemma enumPaths_again:
  "enum r = normalizedEnum node \<Longrightarrow> enumPaths r path = enumPaths node path"
  by (simp add: enumPaths_def normalizedEnum_again)

lemma inferredType_again:
  "inferredType node = Some t \<Longrightarrow> type r = normalizedType node \<Longrightarrow> inferredType r = Some t"
  by (simp add: inferredType_def[of r] schemaType_def normalizedType_def)

lemma inferredType_again_None:
  "inferredType node = None \<Longrightarrow> type r = normalizedType node \<Longrightarrow>
     properties r = properties node \<Longrightarrow> additionalProperties r = additionalProperties node \<Longrightarrow>
     inferredType r = None"
  by (auto simp: inferredType_def schemaType_def normalizedType_def
      split: option.splits if_splits)

lemma hasUnion_again:
  "anyOf r = anyOf node \<Longrightarrow> oneOf r = oneOf node \<Longrightarrow> allOf r = allOf node \<Longrightarrow>
     hasUnion r = hasUnion node"
  by (simp add: hasUnion_def)

text \<open>The paths the second run collects from the properties of an object are those
  the first run has collected, when each child gives the same paths again and the
  child named \<^verbatim>\<open>__proto__\<close>, which the second run does not see, has given none.\<close>

lemma childPaths_again:
  assumes "\<And>k c. (k, c) \<in> set props \<Longrightarrow> k \<noteq> ''__proto__'' \<Longrightarrow>
             unsupportedPaths (normalizeSchemaNode
                 (the (schema (normalizeSchemaNode c (path @ [Key k])))) (path @ [Key k]))
               = unsupportedPaths (normalizeSchemaNode c (path @ [Key k]))"
    and "\<And>c. (''__proto__'', c) \<in> set props \<Longrightarrow>
             unsupportedPaths (normalizeSchemaNode c (path @ [Key ''__proto__''])) = []"
  shows "concat (map (\<lambda>(key, result). unsupportedPaths result)
           (map (\<lambda>(key, child). (key, normalizeSchemaNode child (path @ [Key key])))
              (concat (map (\<lambda>(key, result).
                         case schema result of
                           None \<Rightarrow> []
                         | Some n \<Rightarrow> if key = ''__proto__'' then [] else [(key, n)])
                  (map (\<lambda>(key, child). (key, normalizeSchemaNode child (path @ [Key key])))
                     props)))))
         = concat (map (\<lambda>(key, result). unsupportedPaths result)
             (map (\<lambda>(key, child). (key, normalizeSchemaNode child (path @ [Key key]))) props))"
  using assms
proof (induction props)
  case Nil
  then show ?case by simp
next
  case (Cons p props)
  obtain k c where p: "p = (k, c)" by (cases p)
  obtain n where n: "schema (normalizeSchemaNode c (path @ [Key k])) = Some n"
    using schema_normalizeSchemaNode by blast
  have rest: "concat (map (\<lambda>(key, result). unsupportedPaths result)
           (map (\<lambda>(key, child). (key, normalizeSchemaNode child (path @ [Key key])))
              (concat (map (\<lambda>(key, result).
                         case schema result of
                           None \<Rightarrow> []
                         | Some n \<Rightarrow> if key = ''__proto__'' then [] else [(key, n)])
                  (map (\<lambda>(key, child). (key, normalizeSchemaNode child (path @ [Key key])))
                     props)))))
         = concat (map (\<lambda>(key, result). unsupportedPaths result)
             (map (\<lambda>(key, child). (key, normalizeSchemaNode child (path @ [Key key]))) props))"
    using Cons.IH Cons.prems by simp
  show ?case
  proof (cases "k = ''__proto__''")
    case True
    have "unsupportedPaths (normalizeSchemaNode c (path @ [Key ''__proto__''])) = []"
      using Cons.prems(2)[of c] by (simp add: p True)
    then show ?thesis using rest by (simp add: p n True)
  next
    case False
    have "unsupportedPaths (normalizeSchemaNode n (path @ [Key k]))
            = unsupportedPaths (normalizeSchemaNode c (path @ [Key k]))"
      using Cons.prems(1)[of k c] n False by (simp add: p)
    then show ?thesis using rest by (simp add: p n False)
  qed
qed


lemma enumNode_sel [simp]:
  "type (enumNode node u n) = type node"
  "properties (enumNode node u n) = properties node"
  "items (enumNode node u n) = items node"
  "additionalProperties (enumNode node u n) = additionalProperties node"
  "enum (enumNode node u n) = Some u"
  "anyOf (enumNode node u n) = None"
  "oneOf (enumNode node u n) = None"
  "allOf (enumNode node u n) = None"
  by (simp_all add: enumNode_def)

lemma schemaType_enumNode [simp]: "schemaType (enumNode node u n) = schemaType node"
  by (simp add: schemaType_def)

lemma enumNode_derived [simp]:
  "hasUnion (enumNode node u n) = False"
  "inferredType (enumNode node u n) = inferredType node"
  by (auto simp: hasUnion_def inferredType_def split: option.splits)

lemma variantValues_not_nullish: "x \<in> set (variantValues v) \<Longrightarrow> \<not> isNullish x"
  by (simp add: set_variantValues)

lemma enumNode_supported:
  assumes "values \<noteq> []" and "\<forall>x\<in>set values. \<not> isNullish x"
    and "inferredType node \<noteq> Some ''object''" and "inferredType node \<noteq> Some ''array''"
  shows "unsupportedPaths (normalizeSchemaNode (enumNode node (pushUnique [] values) n) path) = []"
proof -
  let ?E = "enumNode node (pushUnique [] values) n"
  have "set (fst (normalizeEnumValues (pushUnique [] values))) = set values"
    using assms(2) by (auto simp: set_normalizeEnumValues set_pushUnique)
  then have ne: "fst (normalizeEnumValues (pushUnique [] values)) \<noteq> []"
    using assms(1) by (metis set_empty)
  have en: "normalizedEnum ?E = Some (fst (normalizeEnumValues (pushUnique [] values)))"
    by (simp add: normalizedEnum_def)
  have ep: "enumPaths ?E path = []"
    using ne by (simp add: enumPaths_def en split: list.splits)
  show ?thesis
    using assms(3,4) ep en
    by (simp add: normalizeSchemaNode.simps[of ?E] leafResult_def Let_def)
qed

lemma unsupportedPaths_objectResult:
  "unsupportedPaths (objectResult node path results addl)
     = insertAll []
         (enumPaths node path
          @ concat (map (\<lambda>(key, result). unsupportedPaths result) results)
          @ (case additionalProperties node of
               Some (Flag b) \<Rightarrow> if b then [pathLabelOf path] else []
             | Some (Sub a) \<Rightarrow>
                 (case addl of
                    Some result \<Rightarrow> if unsupportedPaths result \<noteq> [] then [pathLabelOf path] else []
                  | None \<Rightarrow> [])
             | None \<Rightarrow> []))"
  by (simp add: objectResult_def Let_def)

lemma objectResult_fields:
  "type (the (schema (objectResult node path results addl))) = normalizedType node"
  "enum (the (schema (objectResult node path results addl))) = normalizedEnum node"
  "anyOf (the (schema (objectResult node path results addl))) = anyOf node"
  "oneOf (the (schema (objectResult node path results addl))) = oneOf node"
  "allOf (the (schema (objectResult node path results addl))) = allOf node"
  "properties (the (schema (objectResult node path results addl)))
     = Some (concat (map (\<lambda>(key, result).
                       case schema result of
                         None \<Rightarrow> []
                       | Some n \<Rightarrow> if key = ''__proto__'' then [] else [(key, n)]) results))"
  "additionalProperties (the (schema (objectResult node path results addl)))
     = (case additionalProperties node of
          Some (Sub a) \<Rightarrow>
            (case addl of
               Some result \<Rightarrow> Some (Sub (case schema result of None \<Rightarrow> a | Some n \<Rightarrow> n))
             | None \<Rightarrow> Some (Sub a))
        | other \<Rightarrow> other)"
  by (simp_all add: objectResult_def Let_def)

lemma unsupportedPaths_arrayResult:
  "unsupportedPaths (arrayResult node path item)
     = insertAll []
         (enumPaths node path
          @ (case item of
               None \<Rightarrow> [pathLabelOf path]
             | Some (itemSchema, result) \<Rightarrow>
                 if unsupportedPaths result \<noteq> [] then [pathLabelOf path] else []))"
  by (simp add: arrayResult_def Let_def)

lemma arrayResult_fields:
  "type (the (schema (arrayResult node path item))) = normalizedType node"
  "enum (the (schema (arrayResult node path item))) = normalizedEnum node"
  "anyOf (the (schema (arrayResult node path item))) = anyOf node"
  "oneOf (the (schema (arrayResult node path item))) = oneOf node"
  "allOf (the (schema (arrayResult node path item))) = allOf node"
  "items (the (schema (arrayResult node path item)))
     = (case item of
          None \<Rightarrow> items node
        | Some (itemSchema, result) \<Rightarrow>
            Some (OneItem (case schema result of None \<Rightarrow> itemSchema | Some n \<Rightarrow> n)))"
  by (simp_all add: arrayResult_def Let_def)

lemma unsupportedPaths_leafResult:
  "unsupportedPaths (leafResult node path)
     = insertAll []
         (enumPaths node path
          @ (if inferredType node = Some ''string'' \<or> inferredType node = Some ''number''
                \<or> inferredType node = Some ''integer'' \<or> inferredType node = Some ''boolean''
             then []
             else if normalizedEnum node = None then [pathLabelOf path] else []))"
  by (simp add: leafResult_def Let_def)

lemma leafResult_fields:
  "type (the (schema (leafResult node path))) = normalizedType node"
  "enum (the (schema (leafResult node path))) = normalizedEnum node"
  "anyOf (the (schema (leafResult node path))) = anyOf node"
  "oneOf (the (schema (leafResult node path))) = oneOf node"
  "allOf (the (schema (leafResult node path))) = allOf node"
  "properties (the (schema (leafResult node path))) = properties node"
  "additionalProperties (the (schema (leafResult node path))) = additionalProperties node"
  by (simp_all add: leafResult_def Let_def)

lemma normalize_again:
  "acceptedAgain node path \<Longrightarrow>
     unsupportedPaths (normalizeSchemaNode (the (schema (normalizeSchemaNode node path))) path)
       = unsupportedPaths (normalizeSchemaNode node path)"
proof (induction node arbitrary: path rule: measure_induct_rule[where f=size])
  case (less node)
  note wf = less.prems
  show ?case
  proof (cases "hasUnion node")
    case True
    then obtain variants where uv: "unionVariants node = Some variants"
      using hasUnion_unionVariants by blast
    let ?vals = "concat (map variantValues variants)"
    let ?nl = "filter isNonLiteral variants"
    let ?null = "list_ex variantNullable variants"
    have cl: "classifyVariants variants ([], [], False) = (?vals, ?nl, ?null)"
      by (simp add: classifyVariants_eq)
    show ?thesis
    proof (cases "?vals \<noteq> [] \<and> ?nl = []")
      case collapse: True
      have first: "normalizeSchemaNode node path
          = \<lparr> schema = Some (enumNode node (pushUnique [] ?vals) ?null),
              unsupportedPaths = [] \<rparr>"
        using collapse by (simp add: normalizeSchemaNode.simps[of node] True
            normalizeUnion.simps uv cl)
      have "unsupportedPaths
              (normalizeSchemaNode (enumNode node (pushUnique [] ?vals) ?null) path) = []"
        using wf collapse by (simp add: acceptedAgain.simps[of node] True uv cl)
      then show ?thesis
        by (simp add: first)
    next
      case other: False
      show ?thesis
      proof (cases ?nl)
        case Nil
        then have "normalizeUnion node path = None"
          using other by (simp add: normalizeUnion.simps uv cl)
        then show ?thesis
          by (simp add: normalizeSchemaNode.simps[of node] True)
      next
        case (Cons v rest)
        show ?thesis
        proof (cases rest)
          case Nil
          have one: "?nl = [v]" using Cons Nil by simp
          have "v \<in> set ?nl" using one by simp
          then have "v \<in> set variants" by simp
          then have sz: "size v < size node" using size_variant[OF uv] by simp
          have wfv: "acceptedAgain v path"
            using wf by (simp add: acceptedAgain.simps[of node] True uv cl one)
          obtain n where n: "schema (normalizeSchemaNode v path) = Some n"
            using schema_normalizeSchemaNode by blast
          have first: "normalizeSchemaNode node path = markNullable (normalizeSchemaNode v path)"
            by (simp add: normalizeSchemaNode.simps[of node] True normalizeUnion.simps uv cl one)
          have "unsupportedPaths (normalizeSchemaNode n path)
                  = unsupportedPaths (normalizeSchemaNode v path)"
            using less.IH[OF sz wfv] n by simp
          then show ?thesis
            by (simp add: first markNullable_def n nullable_irrelevant)
        next
          case (Cons w rest')
          then have "normalizeUnion node path = None"
            using \<open>?nl = v # rest\<close> by (simp add: normalizeUnion.simps uv cl)
          then show ?thesis
            by (simp add: normalizeSchemaNode.simps[of node] True)
        qed
      qed
    qed
  next
    case plain: False
    show ?thesis
    proof (cases "inferredType node = Some ''object''")
      case obj: True
      let ?props = "case properties node of None \<Rightarrow> [] | Some props \<Rightarrow> props"
      let ?results = "map (\<lambda>(key, child). (key, normalizeSchemaNode child (path @ [Key key]))) ?props"
      let ?addl = "case additionalProperties node of
                     Some (Sub a) \<Rightarrow> Some (normalizeSchemaNode a (path @ [Key ''*'']))
                   | _ \<Rightarrow> None"
      let ?R = "the (schema (objectResult node path ?results ?addl))"
      have first: "normalizeSchemaNode node path = objectResult node path ?results ?addl"
        by (simp add: normalizeSchemaNode.simps[of node] plain obj)
      have hu: "\<not> hasUnion ?R"
        using plain by (simp add: hasUnion_again[of ?R node] objectResult_fields)
      have ty: "inferredType ?R = Some ''object''"
        using obj by (rule inferredType_again) (simp add: objectResult_fields)
      have ep: "enumPaths ?R path = enumPaths node path"
        by (rule enumPaths_again) (simp add: objectResult_fields)
      have child: "unsupportedPaths (normalizeSchemaNode
                 (the (schema (normalizeSchemaNode c (path @ [Key k])))) (path @ [Key k]))
               = unsupportedPaths (normalizeSchemaNode c (path @ [Key k]))"
        if "(k, c) \<in> set ?props" and "k \<noteq> ''__proto__''" for k c
      proof -
        have "size c < size node"
          using that(1) by (auto split: option.splits dest: size_property')
        moreover have "acceptedAgain c (path @ [Key k])"
          using wf that by (auto simp: acceptedAgain.simps[of node] plain obj list_all_iff)
        ultimately show ?thesis using less.IH by blast
      qed
      have proto: "unsupportedPaths (normalizeSchemaNode c (path @ [Key ''__proto__''])) = []"
        if "(''__proto__'', c) \<in> set ?props" for c
        using wf that by (auto simp: acceptedAgain.simps[of node] plain obj list_all_iff)
      let ?results2 = "map (\<lambda>(key, child). (key, normalizeSchemaNode child (path @ [Key key])))
                 (concat (map (\<lambda>(key, result).
                            case schema result of
                              None \<Rightarrow> []
                            | Some n \<Rightarrow> if key = ''__proto__'' then [] else [(key, n)])
                    ?results))"
      let ?addl2 = "case additionalProperties ?R of
                 Some (Sub a) \<Rightarrow> Some (normalizeSchemaNode a (path @ [Key ''*'']))
               | _ \<Rightarrow> None"
      let ?tail = "\<lambda>n ad. case additionalProperties n of
               Some (Flag b) \<Rightarrow> if b then [pathLabelOf path] else []
             | Some (Sub a) \<Rightarrow>
                 (case ad of
                    Some result \<Rightarrow> if unsupportedPaths result \<noteq> [] then [pathLabelOf path] else []
                  | None \<Rightarrow> [])
             | None \<Rightarrow> []"
      have second: "normalizeSchemaNode ?R path = objectResult ?R path ?results2 ?addl2"
        by (simp add: normalizeSchemaNode.simps[of ?R] hu ty objectResult_fields(6))
      have cp: "concat (map (\<lambda>(key, result). unsupportedPaths result) ?results2)
                  = concat (map (\<lambda>(key, result). unsupportedPaths result) ?results)"
        using childPaths_again[of ?props path] child proto by blast
      have ap: "?tail ?R ?addl2 = ?tail node ?addl"
      proof (cases "additionalProperties node")
        case None
        then show ?thesis by (simp add: objectResult_fields(7))
      next
        case (Some ap)
        show ?thesis
        proof (cases ap)
          case (Flag b)
          then show ?thesis by (simp add: objectResult_fields(7) Some)
        next
          case (Sub a)
          obtain n where n: "schema (normalizeSchemaNode a (path @ [Key ''*''])) = Some n"
            using schema_normalizeSchemaNode by blast
          have "size a < size node" using size_additional Some Sub by simp
          moreover have "acceptedAgain a (path @ [Key ''*''])"
            using wf by (simp add: acceptedAgain.simps[of node] plain obj Some Sub)
          ultimately have "unsupportedPaths (normalizeSchemaNode n (path @ [Key ''*'']))
                  = unsupportedPaths (normalizeSchemaNode a (path @ [Key ''*'']))"
            using less.IH[of a "path @ [Key ''*'']"] n by simp
          then show ?thesis
            by (simp add: objectResult_fields(7) Some Sub n)
        qed
      qed
      have "unsupportedPaths (normalizeSchemaNode ?R path)
              = insertAll [] (enumPaths ?R path
                  @ concat (map (\<lambda>(key, result). unsupportedPaths result) ?results2)
                  @ ?tail ?R ?addl2)"
        unfolding second by (rule unsupportedPaths_objectResult)
      also have "\<dots> = insertAll [] (enumPaths node path
                  @ concat (map (\<lambda>(key, result). unsupportedPaths result) ?results)
                  @ ?tail node ?addl)"
        unfolding ep cp ap ..
      also have "\<dots> = unsupportedPaths (objectResult node path ?results ?addl)"
        by (rule unsupportedPaths_objectResult[symmetric])
      finally show ?thesis unfolding first .
    next
      case notobj: False
      show ?thesis
      proof (cases "inferredType node = Some ''array''")
        case arr: True
        let ?item = "case itemSchemaOf node of
                       None \<Rightarrow> None
                     | Some itemSchema \<Rightarrow>
                         Some (itemSchema, normalizeSchemaNode itemSchema (path @ [Key ''*'']))"
        let ?R = "the (schema (arrayResult node path ?item))"
        have first: "normalizeSchemaNode node path = arrayResult node path ?item"
          by (simp add: normalizeSchemaNode.simps[of node] plain notobj arr)
        have hu: "\<not> hasUnion ?R"
          using plain by (simp add: hasUnion_again[of ?R node] arrayResult_fields)
        have ty: "inferredType ?R = Some ''array''"
          using arr by (rule inferredType_again) (simp add: arrayResult_fields)
        have ep: "enumPaths ?R path = enumPaths node path"
          by (rule enumPaths_again) (simp add: arrayResult_fields)
        let ?item2 = "case itemSchemaOf ?R of
                   None \<Rightarrow> None
                 | Some itemSchema \<Rightarrow>
                     Some (itemSchema, normalizeSchemaNode itemSchema (path @ [Key ''*'']))"
        let ?tail = "\<lambda>item. case item of
               None \<Rightarrow> [pathLabelOf path]
             | Some (itemSchema, result) \<Rightarrow>
                 if unsupportedPaths result \<noteq> [] then [pathLabelOf path] else []"
        have second: "normalizeSchemaNode ?R path = arrayResult ?R path ?item2"
          by (simp add: normalizeSchemaNode.simps[of ?R] hu ty)
        have ip: "?tail ?item2 = ?tail ?item"
        proof (cases "itemSchemaOf node")
          case None
          have "items ?R = items node" by (simp add: arrayResult_fields(6) None)
          then have "itemSchemaOf ?R = itemSchemaOf node" by (simp add: itemSchemaOf_def)
          then show ?thesis by (simp add: None)
        next
          case (Some it)
          obtain n where n: "schema (normalizeSchemaNode it (path @ [Key ''*''])) = Some n"
            using schema_normalizeSchemaNode by blast
          have "items ?R = Some (OneItem n)"
            by (simp add: arrayResult_fields(6) Some n)
          then have it2: "itemSchemaOf ?R = Some n"
            by (simp add: itemSchemaOf_def)
          have "size it < size node" using size_item Some by simp
          moreover have "acceptedAgain it (path @ [Key ''*''])"
            using wf by (simp add: acceptedAgain.simps[of node] plain notobj arr Some)
          ultimately have "unsupportedPaths (normalizeSchemaNode n (path @ [Key ''*'']))
                  = unsupportedPaths (normalizeSchemaNode it (path @ [Key ''*'']))"
            using less.IH[of it "path @ [Key ''*'']"] n by simp
          then show ?thesis unfolding it2 by (simp add: Some)
        qed
        have "unsupportedPaths (normalizeSchemaNode ?R path)
                = insertAll [] (enumPaths ?R path @ ?tail ?item2)"
          unfolding second by (rule unsupportedPaths_arrayResult)
        also have "\<dots> = insertAll [] (enumPaths node path @ ?tail ?item)"
          unfolding ep ip ..
        also have "\<dots> = unsupportedPaths (arrayResult node path ?item)"
          by (rule unsupportedPaths_arrayResult[symmetric])
        finally show ?thesis unfolding first .
      next
        case notarr: False
        let ?R = "the (schema (leafResult node path))"
        have first: "normalizeSchemaNode node path = leafResult node path"
          by (simp add: normalizeSchemaNode.simps[of node] plain notobj notarr)
        have hu: "\<not> hasUnion ?R"
          using plain by (simp add: hasUnion_again[of ?R node] leafResult_fields)
        have ty: "inferredType ?R = inferredType node"
        proof (cases "inferredType node")
          case None
          then show ?thesis
            using inferredType_again_None[of node ?R] by (simp add: leafResult_fields)
        next
          case (Some t)
          then show ?thesis
            using inferredType_again[of node t ?R] by (simp add: leafResult_fields)
        qed
        have ep: "enumPaths ?R path = enumPaths node path"
          by (rule enumPaths_again) (simp add: leafResult_fields)
        have en: "normalizedEnum ?R = normalizedEnum node"
          by (rule normalizedEnum_again) (simp add: leafResult_fields)
        have second: "normalizeSchemaNode ?R path = leafResult ?R path"
          using notobj notarr by (simp add: normalizeSchemaNode.simps[of ?R] hu ty)
        show ?thesis
          by (simp add: first second unsupportedPaths_leafResult ep en ty)
      qed
    qed
  qed
qed

text \<open>
  Claim C6 says that normalizing the normalized output of any raw schema gives the same
  unsupported paths. A node of type \<^verbatim>\<open>"array"\<close> that is also a union of the literal
  \<^verbatim>\<open>"a"\<close> collapses to an \<^verbatim>\<open>enum\<close> node with no unsupported path; the output keeps the
  type and has lost the union, so the second run takes the array branch, finds no item
  schema and marks the root.
\<close>

theorem analyze_twice_differs:
  "unsupportedPaths (analyzeConfigSchema (Some arrayTypedUnion)) = []
   \<and> unsupportedPaths (analyzeConfigSchema (schema (analyzeConfigSchema (Some arrayTypedUnion))))
       = [''<root>'']"
  by (simp add: analyzeConfigSchema_def arrayTypedUnion_def normalizeSchemaNode.simps
      normalizeUnion.simps hasUnion_def unionVariants_def ofConst_def enumNode_def
      inferredType_def schemaType_def arrayResult_def itemSchemaOf_def enumPaths_def
      normalizedEnum_def normalizeEnumValues_def pathLabelOf_def pathKey_def)

text \<open>The second way in which the two runs differ: a property named \<^verbatim>\<open>__proto__\<close>
  whose schema is not supported is reported by the first run and is not in the schema
  the second run is given.\<close>

lemma proto_property_not_revisited:
  "unsupportedPaths (analyzeConfigSchema (Some protoSchema)) = [''__proto__'']
   \<and> unsupportedPaths (analyzeConfigSchema (schema (analyzeConfigSchema (Some protoSchema))))
       = []"
  by (simp add: analyzeConfigSchema_def protoSchema_def normalizeSchemaNode.simps
      hasUnion_def inferredType_def schemaType_def objectResult_def leafResult_def
      enumPaths_def normalizedEnum_def normalizedType_def pathLabelOf_def pathKey_def)

text \<open>A union that collapses is accepted again when the union node is not of type
  \<^verbatim>\<open>"object"\<close> or \<^verbatim>\<open>"array"\<close>; when it is, that depends on what else the node holds:
  the one of type \<^verbatim>\<open>"array"\<close> above is not, the one of type \<^verbatim>\<open>"object"\<close> below is.\<close>

lemma acceptedAgain_untyped_union:
  assumes "unionVariants node = Some variants"
    and "filter isNonLiteral variants = []"
    and "inferredType node \<noteq> Some ''object''" and "inferredType node \<noteq> Some ''array''"
  shows "acceptedAgain node path"
proof -
  have "\<forall>x\<in>set (concat (map variantValues variants)). \<not> isNullish x"
    by (auto dest: variantValues_not_nullish)
  then show ?thesis
    using assms
    by (simp add: acceptedAgain.simps[of node] unionVariants_hasUnion[OF assms(1)]
        classifyVariants_eq enumNode_supported)
qed

lemma acceptedAgain_objectTypedUnion: "acceptedAgain objectTypedUnion path"
  by (subst acceptedAgain.simps)
     (simp add: objectTypedUnion_def ofConst_def hasUnion_def unionVariants_def enumNode_def
        normalizeSchemaNode.simps inferredType_def schemaType_def objectResult_def
        enumPaths_def normalizedEnum_def normalizeEnumValues_def)

text \<open>
  Claim C6, amended. For every raw schema in which, along the nodes the normalizer
  visits, the \<^verbatim>\<open>enum\<close> node of every union that collapses is itself reported without
  an unsupported path, and so is the schema of every property named \<^verbatim>\<open>__proto__\<close>:
  analyzing the schema of the analysis gives the same unsupported paths as analyzing
  the raw schema, in the same order. A raw value that is not an object gives no schema
  and the root path, twice.
\<close>

theorem analyze_twice_same_unsupported:
  assumes "case raw' of None \<Rightarrow> True | Some node \<Rightarrow> acceptedAgain node []"
  shows "unsupportedPaths (analyzeConfigSchema (schema (analyzeConfigSchema raw')))
           = unsupportedPaths (analyzeConfigSchema raw')"
proof (cases raw')
  case None
  then show ?thesis by (simp add: analyzeConfigSchema_def)
next
  case (Some node)
  obtain n where n: "schema (normalizeSchemaNode node []) = Some n"
    using schema_normalizeSchemaNode by blast
  have "unsupportedPaths (normalizeSchemaNode n []) = unsupportedPaths (normalizeSchemaNode node [])"
    using normalize_again[of node "[]"] assms n by (simp add: Some)
  then show ?thesis by (simp add: analyzeConfigSchema_def Some n)
qed

lemma acceptedAgain_revisitedSchema: "acceptedAgain revisitedSchema []"
proof -
  have mixed: "acceptedAgain (anyOfVariants [ofType ''string'', ofType ''number'']) [Key ''mixed'']"
    by (subst acceptedAgain.simps)
       (simp add: anyOfVariants_def ofType_def hasUnion_def unionVariants_def schemaType_def)
  have proto: "unsupportedPaths (normalizeSchemaNode (ofType ''string'') [Key ''__proto__'']) = []"
    by (simp add: ofType_def normalizeSchemaNode.simps hasUnion_def inferredType_def
        schemaType_def leafResult_def enumPaths_def normalizedEnum_def)
  show ?thesis
    by (subst acceptedAgain.simps)
       (simp add: revisitedSchema_def hasUnion_def inferredType_def schemaType_def mixed proto
          acceptedAgain_objectTypedUnion)
qed

theorem analyze_twice_same_unsupported_witness:
  "acceptedAgain revisitedSchema []
   \<and> unsupportedPaths (analyzeConfigSchema (Some revisitedSchema)) = [''mixed'']
   \<and> unsupportedPaths (analyzeConfigSchema (schema (analyzeConfigSchema (Some revisitedSchema))))
       = [''mixed'']"
proof -
  have first: "unsupportedPaths (analyzeConfigSchema (Some revisitedSchema)) = [''mixed'']"
    by (simp add: analyzeConfigSchema_def revisitedSchema_def objectTypedUnion_def
        anyOfVariants_def ofType_def ofConst_def
        normalizeSchemaNode.simps normalizeUnion.simps hasUnion_def unionVariants_def
        inferredType_def schemaType_def objectResult_def leafResult_def enumPaths_def
        normalizedEnum_def pathLabelOf_def pathKey_def)
  show ?thesis
    using analyze_twice_same_unsupported[of "Some revisitedSchema"]
      acceptedAgain_revisitedSchema first
    by simp
qed

end
